theory Spec2Isabelle
  imports Complex_Main "HOL-Library.Char_ord" "HOL-Library.List_Lexorder"
    "HOL-Library.Product_Lexorder"
begin

section \<open>Floating-point cells of a data frame\<close>

text \<open>
  A numeric cell of a pandas frame is an IEEE double. The model keeps the special values
  (\<open>NaN\<close>, which pandas uses for a missing cell, and the two infinities) and computes the
  finite values in exact real arithmetic: rounding error, overflow and the sign of zero
  are not modelled.
\<close>

datatype pyfloat = Fin real | PInf | NInf | NaN

fun pf_neg :: "pyfloat \<Rightarrow> pyfloat" where
  "pf_neg (Fin x) = Fin (- x)"
| "pf_neg PInf = NInf"
| "pf_neg NInf = PInf"
| "pf_neg NaN = NaN"

fun pf_add :: "pyfloat \<Rightarrow> pyfloat \<Rightarrow> pyfloat" where
  "pf_add (Fin x) (Fin y) = Fin (x + y)"
| "pf_add NaN _ = NaN"
| "pf_add _ NaN = NaN"
| "pf_add PInf NInf = NaN"
| "pf_add NInf PInf = NaN"
| "pf_add PInf _ = PInf"
| "pf_add NInf _ = NInf"
| "pf_add _ PInf = PInf"
| "pf_add _ NInf = NInf"

definition pf_sub :: "pyfloat \<Rightarrow> pyfloat \<Rightarrow> pyfloat" where
  "pf_sub a b = pf_add a (pf_neg b)"

text \<open>The sign of a cell: 1, 0 or -1; \<open>None\<close> for \<open>NaN\<close>.\<close>

fun pf_sign :: "pyfloat \<Rightarrow> int option" where
  "pf_sign (Fin x) = Some (if 0 < x then 1 else if x < 0 then - 1 else 0)"
| "pf_sign PInf = Some 1"
| "pf_sign NInf = Some (- 1)"
| "pf_sign NaN = None"

definition inf_of_sign :: "int \<Rightarrow> pyfloat" where
  "inf_of_sign s = (if 0 < s then PInf else if s < 0 then NInf else NaN)"

fun pf_mul :: "pyfloat \<Rightarrow> pyfloat \<Rightarrow> pyfloat" where
  "pf_mul (Fin x) (Fin y) = Fin (x * y)"
| "pf_mul a b =
     (case (pf_sign a, pf_sign b) of
        (Some s, Some t) \<Rightarrow> inf_of_sign (s * t)
      | _ \<Rightarrow> NaN)"

fun pf_div :: "pyfloat \<Rightarrow> pyfloat \<Rightarrow> pyfloat" where
  "pf_div (Fin x) (Fin y) =
     (if y \<noteq> 0 then Fin (x / y)
      else if 0 < x then PInf else if x < 0 then NInf else NaN)"
| "pf_div NaN _ = NaN"
| "pf_div _ NaN = NaN"
| "pf_div (Fin x) _ = Fin 0"
| "pf_div PInf (Fin y) = (if y < 0 then NInf else PInf)"
| "pf_div NInf (Fin y) = (if y < 0 then PInf else NInf)"
| "pf_div _ _ = NaN"

text \<open>The comparison \<open>x > 0\<close>, false for \<open>NaN\<close>.\<close>

definition pf_gt0 :: "pyfloat \<Rightarrow> bool" where
  "pf_gt0 a = (pf_sign a = Some 1)"

text \<open>\<open>Series.fillna(other)\<close>, cell by cell.\<close>

definition fillna :: "pyfloat \<Rightarrow> pyfloat \<Rightarrow> pyfloat" where
  "fillna other a = (if a = NaN then other else a)"

text \<open>\<open>Series.sum()\<close> with the default \<open>skipna=True\<close>: missing cells are left out, and
  the sum of no cell is 0.\<close>

definition sum_skipna :: "pyfloat list \<Rightarrow> pyfloat" where
  "sum_skipna xs = foldl pf_add (Fin 0) (filter (\<lambda>a. a \<noteq> NaN) xs)"

text \<open>Rounding to the nearest integer, halves to the even neighbour (\<open>numpy.rint\<close>), and
  \<open>round(2)\<close> of a cell.\<close>

definition rint :: "real \<Rightarrow> int" where
  "rint x =
     (let f = \<lfloor>x\<rfloor>; d = x - of_int f
      in if d < 1 / 2 then f else if 1 / 2 < d then f + 1
         else if even f then f else f + 1)"

fun round2 :: "pyfloat \<Rightarrow> pyfloat" where
  "round2 (Fin x) = Fin (of_int (rint (x * 100)) / 100)"
| "round2 a = a"

section \<open>Dates and quarter labels\<close>

text \<open>
  A date is the number of days since 1970-01-01. \<open>civil\<close> gives the year and the month of
  the proleptic Gregorian calendar, which is what \<open>dt.year\<close> and \<open>dt.quarter\<close> read.
\<close>

type_synonym date = int

definition civil :: "date \<Rightarrow> int \<times> int" where
  "civil days =
     (let z = days + 719468;
          era = z div 146097;
          doe = z mod 146097;
          yoe = (doe - doe div 1460 + doe div 36524 - doe div 146096) div 365;
          doy = doe - (365 * yoe + yoe div 4 - yoe div 100);
          mp = (5 * doy + 2) div 153;
          m = (if mp < 10 then mp + 3 else mp - 9);
          y = yoe + era * 400 + (if m \<le> 2 then 1 else 0)
      in (y, m))"

definition dt_year :: "date \<Rightarrow> int" where
  "dt_year d = fst (civil d)"

definition dt_quarter :: "date \<Rightarrow> int" where
  "dt_quarter d = (snd (civil d) - 1) div 3 + 1"

text \<open>\<open>astype(str)\<close> of a non-negative integer.\<close>

fun str_nat :: "nat \<Rightarrow> string" where
  "str_nat n =
     (if n < 10 then [char_of (48 + n)]
      else str_nat (n div 10) @ [char_of (48 + n mod 10)])"

declare str_nat.simps [simp del]

definition str_int :: "int \<Rightarrow> string" where
  "str_int i = (if i < 0 then CHR ''-'' # str_nat (nat (- i)) else str_nat (nat i))"

definition quarter_label :: "date \<Rightarrow> string" where
  "quarter_label d = ''q'' @ str_int (dt_quarter d) @ ''_'' @ str_int (dt_year d)"

section \<open>The disclosure loader: \<open>get_positions\<close>\<close>

datatype error = ValueError | IndexError | AttributeError | TypeError | KeyError | MergeError

text \<open>
  A cell of the \<open>Cl\<close>, \<open>Shares\<close> or \<open>Value ($000)\<close> column as \<open>read_csv\<close> delivers it.
  A file whose column holds a text that is not a number (a class code, a count with a
  thousands separator) has the column read as strings; a file whose column holds plain
  numbers only has it read as numbers; an empty cell and the texts of \<open>read_csv\<close>'s
  list of missing values (\<open>n/a\<close>, \<open>NA\<close>, ...) are read as missing.
\<close>

datatype cell = Str string | Num real | Missing

text \<open>
  The \<open>.str\<close> accessor of a column (lines 53, 59 and 66). \<open>whole\<close> is the column of the
  concatenated frame, which fixes the dtype: object when some file delivered a string
  (or when there is no row at all), numeric otherwise. \<open>cells\<close> is the column of the
  rows that are left when the accessor is used. The accessor raises AttributeError on a
  numeric column, and on an object column whose cells hold a number and no string; it
  is granted when a cell is a string or when every cell is missing.
\<close>

definition is_str :: "cell \<Rightarrow> bool" where
  "is_str c = (case c of Str s \<Rightarrow> True | _ \<Rightarrow> False)"

definition is_missing :: "cell \<Rightarrow> bool" where
  "is_missing c = (case c of Missing \<Rightarrow> True | _ \<Rightarrow> False)"

definition str_accessor :: "cell list \<Rightarrow> cell list \<Rightarrow> bool" where
  "str_accessor whole cells =
     ((whole = [] \<or> list_ex is_str whole) \<and> (list_ex is_str cells \<or> list_all is_missing cells))"

text \<open>
  A row of a snapshot file as \<open>read_csv\<close> delivers it: the ticker is a text or is
  missing, the other three columns hold cells. A snapshot is the rows of one file
  together with the filing date taken from the file's name; listing the directory and
  reading the files is outside the model.
\<close>

record raw_row =
  sym_col :: "string option"
  cl_col :: cell
  shares_raw :: cell
  value_raw :: cell

type_synonym snapshot = "date \<times> raw_row list"

record position =
  date :: date
  ticker :: string
  class_col :: string
  shares :: pyfloat
  sell_date :: date
  change :: pyfloat
  value_col :: pyfloat
  quarter :: string

text \<open>\<open>str.contains('EXP|UNIT', regex=True, case=False)\<close>.\<close>

definition upper_char :: "char \<Rightarrow> char" where
  "upper_char c =
     (let n = (of_char c :: nat) in if 97 \<le> n \<and> n \<le> 122 then char_of (n - 32) else c)"

fun starts_with :: "string \<Rightarrow> string \<Rightarrow> bool" where
  "starts_with [] s = True"
| "starts_with (p # ps) [] = False"
| "starts_with (p # ps) (c # cs) = (p = c \<and> starts_with ps cs)"

fun str_contains :: "string \<Rightarrow> string \<Rightarrow> bool" where
  "str_contains pat [] = (pat = [])"
| "str_contains pat (c # cs) = (starts_with pat (c # cs) \<or> str_contains pat cs)"

definition exp_or_unit :: "string \<Rightarrow> bool" where
  "exp_or_unit s =
     (let u = map upper_char s in str_contains ''EXP'' u \<or> str_contains ''UNIT'' u)"

text \<open>\<open>str.replace(',', '')\<close>.\<close>

definition strip_commas :: "string \<Rightarrow> string" where
  "strip_commas s = filter (\<lambda>c. c \<noteq> CHR '','') s"

text \<open>
  Lines 42 to 51: the snapshots concatenated with their date attached, the rows without
  a ticker dropped, and the rest sorted by (date, ticker).
\<close>

definition with_ticker :: "snapshot list \<Rightarrow> (date \<times> string \<times> raw_row) list" where
  "with_ticker files =
     (let rows = concat (map (\<lambda>(d, rs). map (\<lambda>r. (d, r)) rs) files);
          kept = List.map_filter
                   (\<lambda>(d, r). case sym_col r of None \<Rightarrow> None | Some t \<Rightarrow> Some (d, t, r)) rows
      in sort_key (\<lambda>(d, t, r). (d, t)) kept)"

text \<open>
  Line 53, what it raises: AttributeError when the \<open>.str\<close> accessor is refused on the
  class column, and TypeError when a class cell of the sorted rows is not a string, since
  \<open>str.contains\<close> gives \<open>NaN\<close> for it and \<open>~\<close> is not defined on \<open>NaN\<close>.
\<close>

definition class_error :: "snapshot list \<Rightarrow> error option" where
  "class_error files =
     (let cells = map (\<lambda>(d, t, r). cl_col r) (with_ticker files)
      in if \<not> str_accessor (map cl_col (concat (map snd files))) cells then Some AttributeError
         else if \<not> list_all is_str cells then Some TypeError
         else None)"

text \<open>The text of a class cell that is a string.\<close>

definition class_text :: "cell \<Rightarrow> string" where
  "class_text c = (case c of Str s \<Rightarrow> s | _ \<Rightarrow> [])"

text \<open>Line 53, what it keeps: the rows whose class is not an expiring or unit class.\<close>

definition normalize_rows :: "snapshot list \<Rightarrow> (date \<times> string \<times> raw_row) list" where
  "normalize_rows files =
     filter (\<lambda>(d, t, r). \<not> exp_or_unit (class_text (cl_col r))) (with_ticker files)"

text \<open>
  \<open>groupby('ticker')['shares'].diff()\<close>: every row minus the row before it in its own
  group, in the order of the table; \<open>seen\<close> holds the rows already passed, the latest
  first. The first row of a group has no row before it and gets \<open>NaN\<close>.
\<close>

fun group_diff :: "(string \<times> pyfloat) list \<Rightarrow> (string \<times> pyfloat) list \<Rightarrow> pyfloat list" where
  "group_diff seen [] = []"
| "group_diff seen ((t, s) # rest) =
     (case map_of seen t of None \<Rightarrow> NaN | Some s' \<Rightarrow> pf_sub s s')
       # group_diff ((t, s) # seen) rest"

text \<open>
  Lines 60 to 64 on the columns (date, ticker, shares): the difference within the ticker,
  the missing differences filled with the share count, and the rows of the earliest date
  set back to \<open>NaN\<close>.
\<close>

definition share_change :: "(date \<times> string \<times> pyfloat) list \<Rightarrow> pyfloat list" where
  "share_change rows =
     (let diffs = group_diff [] (map snd rows);
          filled = map2 fillna (map (\<lambda>(d, t, s). s) rows) diffs
      in case rows of [] \<Rightarrow> []
         | _ \<Rightarrow> (let first = min_list (map fst rows)
                 in map2 (\<lambda>(d, t, s) c. if d = first then NaN else c) rows filled))"

text \<open>
  \<open>.str.replace(',', '')\<close> followed by \<open>astype(float)\<close> on one cell: a string loses its
  commas and is parsed, a cell that is not a string becomes \<open>NaN\<close>. Python's \<open>float\<close> is
  the parameter \<open>to_float\<close>, \<open>None\<close> where it raises ValueError.
\<close>

definition cell_to_float :: "(string \<Rightarrow> pyfloat option) \<Rightarrow> cell \<Rightarrow> pyfloat option" where
  "cell_to_float to_float c =
     (case c of Str s \<Rightarrow> to_float (strip_commas s) | _ \<Rightarrow> Some NaN)"

text \<open>
  The whole expression \<open>column.str.replace(',', '').astype(float)\<close>: AttributeError when
  the accessor is refused, ValueError as soon as one string does not parse.
\<close>

definition astype_float ::
  "(string \<Rightarrow> pyfloat option) \<Rightarrow> cell list \<Rightarrow> cell list \<Rightarrow> error + pyfloat list" where
  "astype_float to_float whole cells =
     (if \<not> str_accessor whole cells then Inl AttributeError
      else case those (map (cell_to_float to_float) cells) of
             None \<Rightarrow> Inl ValueError
           | Some xs \<Rightarrow> Inr xs)"

definition mk_position ::
  "nat \<Rightarrow> (date \<times> string \<times> raw_row) \<Rightarrow> pyfloat \<times> pyfloat \<times> pyfloat \<Rightarrow> position" where
  "mk_position n_weeks row cols =
     (case (row, cols) of ((d, t, r), (s, c, v)) \<Rightarrow>
        \<lparr> date = d, ticker = t, class_col = class_text (cl_col r), shares = s,
          sell_date = d + 7 * int n_weeks, change = c,
          value_col = pf_mul v (Fin 1000), quarter = quarter_label d \<rparr>)"

definition get_positions ::
  "(string \<Rightarrow> pyfloat option) \<Rightarrow> nat \<Rightarrow> snapshot list \<Rightarrow> error + position list" where
  "get_positions to_float n_weeks files =
     (if files = [] then Inl ValueError
      else
        case class_error files of
          Some e \<Rightarrow> Inl e
        | None \<Rightarrow>
            (let whole = concat (map snd files);
                 rows = normalize_rows files
             in case astype_float to_float (map shares_raw whole)
                       (map (\<lambda>(d, t, r). shares_raw r) rows) of
                  Inl e \<Rightarrow> Inl e
                | Inr shs \<Rightarrow>
                   (let chg = share_change (map2 (\<lambda>(d, t, r) s. (d, t, s)) rows shs)
                    in case astype_float to_float (map value_raw whole)
                              (map (\<lambda>(d, t, r). value_raw r) rows) of
                         Inl e \<Rightarrow> Inl e
                       | Inr vals \<Rightarrow>
                           Inr (map2 (mk_position n_weeks) rows
                                  (zip shs (zip chg vals))))))"

text \<open>A parser for the cells used in the examples: unsigned decimal integers, on which it
  agrees with Python's \<open>float\<close>; every other string is rejected.\<close>

definition digit_val :: "char \<Rightarrow> nat option" where
  "digit_val c =
     (let n = (of_char c :: nat) in if 48 \<le> n \<and> n \<le> 57 then Some (n - 48) else None)"

definition float_of_digits :: "string \<Rightarrow> pyfloat option" where
  "float_of_digits s =
     (if s = [] then None
      else case those (map digit_val s) of
             None \<Rightarrow> None
           | Some ds \<Rightarrow> Some (Fin (of_nat (foldl (\<lambda>a d. 10 * a + d) 0 ds))))"

text \<open>The \<open>.str\<close> accessor is refused on column \<open>col\<close> of the store.\<close>

definition no_strings :: "(raw_row \<Rightarrow> cell) \<Rightarrow> snapshot list \<Rightarrow> bool" where
  "no_strings col files =
     (\<not> str_accessor (map col (concat (map snd files)))
          (map (\<lambda>(d, t, r). col r) (normalize_rows files)))"

text \<open>Some retained row has in column \<open>col\<close> a string that \<open>to_float\<close> rejects once its
  commas are stripped.\<close>

definition unparsed ::
  "(string \<Rightarrow> pyfloat option) \<Rightarrow> (raw_row \<Rightarrow> cell) \<Rightarrow> snapshot list \<Rightarrow> bool" where
  "unparsed tf col files =
     list_ex (\<lambda>(d, t, r). cell_to_float tf (col r) = None) (normalize_rows files)"

text \<open>
  Example stores, every share count and value written with a thousands separator.
  \<open>one_filing\<close>: one filing of 2023-01-01 only. \<open>bad_cell\<close>: the same with a value that is
  not a number. \<open>plain_numbers\<close>: the same with the share count and the value written
  without separator, which \<open>read_csv\<close> delivers as numbers. \<open>missing_class\<close>: a filing
  with an empty class cell beside a written one. \<open>missing_cell\<close>: a filing with an empty
  value cell beside a written one.
\<close>

definition one_filing :: "snapshot list" where
  "one_filing =
     [(19358, [\<lparr>sym_col = Some ''AAA'', cl_col = Str ''COM'', shares_raw = Str ''1,000'',
                value_raw = Str ''7,000''\<rparr>])]"

definition bad_cell :: "snapshot list" where
  "bad_cell =
     [(19358, [\<lparr>sym_col = Some ''AAA'', cl_col = Str ''COM'', shares_raw = Str ''1,000'',
                value_raw = Str ''7,0x0''\<rparr>])]"

definition plain_numbers :: "snapshot list" where
  "plain_numbers =
     [(19358, [\<lparr>sym_col = Some ''AAA'', cl_col = Str ''COM'', shares_raw = Num 1000,
                value_raw = Num 7000\<rparr>])]"

definition missing_class :: "snapshot list" where
  "missing_class =
     [(19358, [\<lparr>sym_col = Some ''AAA'', cl_col = Missing, shares_raw = Str ''1,000'',
                value_raw = Str ''7,000''\<rparr>,
               \<lparr>sym_col = Some ''BBB'', cl_col = Str ''COM'', shares_raw = Str ''2,000'',
                value_raw = Str ''5,000''\<rparr>])]"

definition missing_cell :: "snapshot list" where
  "missing_cell =
     [(19358, [\<lparr>sym_col = Some ''AAA'', cl_col = Str ''COM'', shares_raw = Str ''1,000'',
                value_raw = Missing\<rparr>,
               \<lparr>sym_col = Some ''BBB'', cl_col = Str ''COM'', shares_raw = Str ''2,000'',
                value_raw = Str ''5,000''\<rparr>])]"

text \<open>The columns (date, ticker, shares) of a positions table.\<close>

definition keyed :: "position list \<Rightarrow> (date \<times> string \<times> pyfloat) list" where
  "keyed ps = map (\<lambda>p. (date p, ticker p, shares p)) ps"

definition is_fin :: "pyfloat \<Rightarrow> bool" where
  "is_fin a = (case a of Fin x \<Rightarrow> True | _ \<Rightarrow> False)"

text \<open>Row \<open>q\<close> is the row of \<open>r\<close>'s ticker at that ticker's immediately preceding filing:
  an earlier filing of the ticker, and the latest of the earlier ones.\<close>

definition prev_filing :: "position list \<Rightarrow> position \<Rightarrow> position \<Rightarrow> bool" where
  "prev_filing ps r q =
     (ticker q = ticker r \<and> date q < date r \<and>
      (\<forall>q'\<in>set ps. ticker q' = ticker r \<and> date q' < date r \<longrightarrow> date q' \<le> date q))"

text \<open>The table has one row for a ticker and a filing date (the data model's invariant).\<close>

definition unique_rows :: "position list \<Rightarrow> bool" where
  "unique_rows ps = distinct (map (\<lambda>p. (date p, ticker p)) ps)"

text \<open>
  Example stores. \<open>two_filings\<close>: filings of 2023-01-01 and 2023-04-01, AAA going from
  1,000 to 1,500 shares and BBB new with 2,000 shares. \<open>three_filings\<close>: AAA is filed on
  2023-01-01, missing on 2023-04-01 and back on 2023-07-01. \<open>two_classes\<close>: as
  \<open>two_filings\<close>, but the filing of 2023-04-01 lists AAA twice, its common stock and a
  call option on it. \<open>two_classes_back\<close>: AAA is filed on 2023-01-01, missing on
  2023-04-01 and back on 2023-07-01 with its common stock and a call option.
\<close>

definition two_filings :: "snapshot list" where
  "two_filings =
     [(19448, [\<lparr>sym_col = Some ''AAA'', cl_col = Str ''COM'', shares_raw = Str ''1,500'',
                value_raw = Str ''10,000''\<rparr>,
               \<lparr>sym_col = Some ''BBB'', cl_col = Str ''COM'', shares_raw = Str ''2,000'',
                value_raw = Str ''5,000''\<rparr>]),
      (19358, [\<lparr>sym_col = Some ''AAA'', cl_col = Str ''COM'', shares_raw = Str ''1,000'',
                value_raw = Str ''7,000''\<rparr>])]"

definition two_positions :: "position list" where
  "two_positions =
     [\<lparr>date = 19358, ticker = ''AAA'', class_col = ''COM'', shares = Fin 1000,
        sell_date = 19449, change = NaN, value_col = Fin 7000000, quarter = ''q1_2023''\<rparr>,
      \<lparr>date = 19448, ticker = ''AAA'', class_col = ''COM'', shares = Fin 1500,
        sell_date = 19539, change = Fin 500, value_col = Fin 10000000,
        quarter = ''q2_2023''\<rparr>,
      \<lparr>date = 19448, ticker = ''BBB'', class_col = ''COM'', shares = Fin 2000,
        sell_date = 19539, change = Fin 2000, value_col = Fin 5000000,
        quarter = ''q2_2023''\<rparr>]"

definition three_filings :: "snapshot list" where
  "three_filings =
     [(19358, [\<lparr>sym_col = Some ''AAA'', cl_col = Str ''COM'', shares_raw = Str ''1,000'',
                value_raw = Str ''7,000''\<rparr>,
               \<lparr>sym_col = Some ''BBB'', cl_col = Str ''COM'', shares_raw = Str ''1,100'',
                value_raw = Str ''5,000''\<rparr>]),
      (19448, [\<lparr>sym_col = Some ''BBB'', cl_col = Str ''COM'', shares_raw = Str ''1,200'',
                value_raw = Str ''5,000''\<rparr>]),
      (19539, [\<lparr>sym_col = Some ''AAA'', cl_col = Str ''COM'', shares_raw = Str ''1,300'',
                value_raw = Str ''10,000''\<rparr>])]"

definition three_positions :: "position list" where
  "three_positions =
     [\<lparr>date = 19358, ticker = ''AAA'', class_col = ''COM'', shares = Fin 1000,
        sell_date = 19449, change = NaN, value_col = Fin 7000000, quarter = ''q1_2023''\<rparr>,
      \<lparr>date = 19358, ticker = ''BBB'', class_col = ''COM'', shares = Fin 1100,
        sell_date = 19449, change = NaN, value_col = Fin 5000000, quarter = ''q1_2023''\<rparr>,
      \<lparr>date = 19448, ticker = ''BBB'', class_col = ''COM'', shares = Fin 1200,
        sell_date = 19539, change = Fin 100, value_col = Fin 5000000,
        quarter = ''q2_2023''\<rparr>,
      \<lparr>date = 19539, ticker = ''AAA'', class_col = ''COM'', shares = Fin 1300,
        sell_date = 19630, change = Fin 300, value_col = Fin 10000000,
        quarter = ''q3_2023''\<rparr>]"

definition two_classes :: "snapshot list" where
  "two_classes =
     [(19358, [\<lparr>sym_col = Some ''AAA'', cl_col = Str ''COM'', shares_raw = Str ''1,000'',
                value_raw = Str ''7,000''\<rparr>]),
      (19448, [\<lparr>sym_col = Some ''AAA'', cl_col = Str ''COM'', shares_raw = Str ''1,500'',
                value_raw = Str ''10,000''\<rparr>,
               \<lparr>sym_col = Some ''AAA'', cl_col = Str ''CALL'', shares_raw = Str ''2,000'',
                value_raw = Str ''5,000''\<rparr>])]"

definition two_classes_positions :: "position list" where
  "two_classes_positions =
     [\<lparr>date = 19358, ticker = ''AAA'', class_col = ''COM'', shares = Fin 1000,
        sell_date = 19449, change = NaN, value_col = Fin 7000000, quarter = ''q1_2023''\<rparr>,
      \<lparr>date = 19448, ticker = ''AAA'', class_col = ''COM'', shares = Fin 1500,
        sell_date = 19539, change = Fin 500, value_col = Fin 10000000,
        quarter = ''q2_2023''\<rparr>,
      \<lparr>date = 19448, ticker = ''AAA'', class_col = ''CALL'', shares = Fin 2000,
        sell_date = 19539, change = Fin 500, value_col = Fin 5000000,
        quarter = ''q2_2023''\<rparr>]"

definition two_classes_back :: "snapshot list" where
  "two_classes_back =
     [(19358, [\<lparr>sym_col = Some ''AAA'', cl_col = Str ''COM'', shares_raw = Str ''1,000'',
                value_raw = Str ''7,000''\<rparr>,
               \<lparr>sym_col = Some ''BBB'', cl_col = Str ''COM'', shares_raw = Str ''1,100'',
                value_raw = Str ''5,000''\<rparr>]),
      (19448, [\<lparr>sym_col = Some ''BBB'', cl_col = Str ''COM'', shares_raw = Str ''1,200'',
                value_raw = Str ''5,000''\<rparr>]),
      (19539, [\<lparr>sym_col = Some ''AAA'', cl_col = Str ''COM'', shares_raw = Str ''1,300'',
                value_raw = Str ''10,000''\<rparr>,
               \<lparr>sym_col = Some ''AAA'', cl_col = Str ''CALL'', shares_raw = Str ''1,800'',
                value_raw = Str ''5,000''\<rparr>])]"

definition two_classes_back_positions :: "position list" where
  "two_classes_back_positions =
     [\<lparr>date = 19358, ticker = ''AAA'', class_col = ''COM'', shares = Fin 1000,
        sell_date = 19449, change = NaN, value_col = Fin 7000000, quarter = ''q1_2023''\<rparr>,
      \<lparr>date = 19358, ticker = ''BBB'', class_col = ''COM'', shares = Fin 1100,
        sell_date = 19449, change = NaN, value_col = Fin 5000000, quarter = ''q1_2023''\<rparr>,
      \<lparr>date = 19448, ticker = ''BBB'', class_col = ''COM'', shares = Fin 1200,
        sell_date = 19539, change = Fin 100, value_col = Fin 5000000,
        quarter = ''q2_2023''\<rparr>,
      \<lparr>date = 19539, ticker = ''AAA'', class_col = ''COM'', shares = Fin 1300,
        sell_date = 19630, change = Fin 300, value_col = Fin 10000000,
        quarter = ''q3_2023''\<rparr>,
      \<lparr>date = 19539, ticker = ''AAA'', class_col = ''CALL'', shares = Fin 1800,
        sell_date = 19630, change = Fin 500, value_col = Fin 5000000,
        quarter = ''q3_2023''\<rparr>]"

section \<open>The price aligner: \<open>get_prices\<close>\<close>

text \<open>\<open>Series.unique()\<close>: the distinct values, in the order of their first appearance.\<close>

definition unique :: "'a list \<Rightarrow> 'a list" where
  "unique xs = rev (remdups (rev xs))"

text \<open>
  Lines 78 to 84: the tickers of the rows with a positive change, the second of the
  distinct filing dates in the order of the table (an IndexError when there is none), and
  the latest sell date.
\<close>

definition price_query :: "position list \<Rightarrow> error + string list \<times> date \<times> date" where
  "price_query ps =
     (let buy_tickers = unique (map ticker (filter (\<lambda>p. pf_gt0 (change p)) ps));
          dates = unique (map date ps)
      in if length dates < 2 then Inl IndexError
         else Inr (buy_tickers, dates ! 1, Max (set (map sell_date ps))))"

text \<open>
  What the price source returns: for a list of tickers a frame, which is a date index and
  one column of adjusted closing prices for each label the source chose to return; for a
  single ticker a series. The source itself is outside the model and is a parameter.
\<close>

type_synonym frame = "date list \<times> (string \<times> pyfloat list) list"

type_synonym series = "(date \<times> pyfloat) list"

record price_source =
  download :: "string list \<Rightarrow> date \<Rightarrow> date \<Rightarrow> frame"
  download_one :: "string \<Rightarrow> date \<Rightarrow> date \<Rightarrow> series"

text \<open>
  \<open>pct_change(n) * 100\<close>. With the default \<open>fill_method\<close> of pandas 1 and 2, a missing
  price is first replaced by the last price before it; the first \<open>n\<close> cells have no price
  \<open>n\<close> rows back and are \<open>NaN\<close>.
\<close>

fun ffill :: "pyfloat \<Rightarrow> pyfloat list \<Rightarrow> pyfloat list" where
  "ffill prev [] = []"
| "ffill prev (x # xs) = (if x = NaN then prev # ffill prev xs else x # ffill x xs)"

definition pct_change :: "nat \<Rightarrow> pyfloat list \<Rightarrow> pyfloat list" where
  "pct_change n xs =
     (let ys = ffill NaN xs
      in map (\<lambda>i. if i < n then NaN
                   else pf_mul (pf_sub (pf_div (ys ! i) (ys ! (i - n))) (Fin 1)) (Fin 100))
           [0..<length ys])"

record pc_row =
  pc_sell_date :: date
  pc_ticker :: string
  pc_price_change :: pyfloat

text \<open>Lines 91 to 94: one row for every date and column, sorted by (date, ticker).\<close>

definition melt :: "frame \<Rightarrow> pc_row list" where
  "melt fr =
     (case fr of (idx, cols) \<Rightarrow>
        sort_key (\<lambda>r. (pc_sell_date r, pc_ticker r))
          (concat (map (\<lambda>(t, xs).
             map (\<lambda>(d, x). \<lparr>pc_sell_date = d, pc_ticker = t, pc_price_change = x\<rparr>)
               (zip idx xs)) cols)))"

definition get_prices ::
  "price_source \<Rightarrow> nat \<Rightarrow> position list \<Rightarrow> error + pc_row list \<times> series" where
  "get_prices src n ps =
     (case price_query ps of
        Inl e \<Rightarrow> Inl e
      | Inr (buy_tickers, start, end) \<Rightarrow>
          (let price = download src buy_tickers start end;
               price_change =
                 melt (fst price, map (\<lambda>(t, xs). (t, pct_change n xs)) (snd price));
               sp500 = download_one src ''VOO'' start end;
               sp500_change = zip (map fst sp500) (pct_change n (map snd sp500))
           in Inr (price_change, sp500_change)))"

section \<open>The portfolio composer: \<open>create_portfolio\<close>\<close>

text \<open>
  \<open>merge_asof(..., direction='nearest')\<close> for one left key \<open>t\<close> against the right rows
  \<open>obs\<close> (sorted by date): the last row at or before \<open>t\<close> and the first row at or after
  \<open>t\<close> are the candidates; the nearer one is taken, the earlier one on a tie, and a left
  row without any right row gets no match.
\<close>

definition asof_nearest :: "date \<Rightarrow> (date \<times> 'a) list \<Rightarrow> 'a option" where
  "asof_nearest t obs =
     (case (rev (filter (\<lambda>(d, v). d \<le> t) obs), filter (\<lambda>(d, v). t \<le> d) obs) of
        ([], []) \<Rightarrow> None
      | ((bd, bv) # _, []) \<Rightarrow> Some bv
      | ([], (fd, fv) # _) \<Rightarrow> Some fv
      | ((bd, bv) # _, (fd, fv) # _) \<Rightarrow> if t - bd \<le> fd - t then Some bv else Some fv)"

record portfolio_row = position +
  price_change :: pyfloat
  weight :: pyfloat
  performance :: pyfloat

text \<open>The return observations of one ticker, as (date, trailing return).\<close>

definition observations :: "pc_row list \<Rightarrow> string \<Rightarrow> (date \<times> pyfloat) list" where
  "observations pcs t =
     map (\<lambda>r. (pc_sell_date r, pc_price_change r)) (filter (\<lambda>r. pc_ticker r = t) pcs)"

text \<open>The \<open>price_change\<close> cell of a merged row: the matched observation's return, \<open>NaN\<close>
  without a match (\<open>merge_asof\<close> keeps every left row).\<close>

definition matched_change :: "pc_row list \<Rightarrow> position \<Rightarrow> pyfloat" where
  "matched_change pcs p =
     (case asof_nearest (sell_date p) (observations pcs (ticker p)) of
        None \<Rightarrow> NaN | Some x \<Rightarrow> x)"

text \<open>Line 118: the value of the row over the sum of the values of its quarter.\<close>

definition quarter_total :: "position list \<Rightarrow> string \<Rightarrow> pyfloat" where
  "quarter_total ps q = sum_skipna (map value_col (filter (\<lambda>p. quarter p = q) ps))"

definition merge_row :: "position list \<Rightarrow> pc_row list \<Rightarrow> position \<Rightarrow> portfolio_row" where
  "merge_row ps pcs p =
     (let c = matched_change pcs p;
          w = pf_div (value_col p) (quarter_total ps (quarter p))
      in position.extend p
           \<lparr>price_change = c, weight = w, performance = pf_mul c w\<rparr>)"

text \<open>
  A row of a performance table. \<open>NullRow\<close> is the row that the assignment
  \<open>performance.loc[0, 'performance'] = np.nan\<close> appends to a table without rows: all its
  cells are missing.
\<close>

datatype perf_row = Period string date pyfloat | NullRow

text \<open>
  Lines 123 to 125: the sum of the performance cells for every (quarter, sell_date) group,
  the groups in the order of their keys, then sorted by sell date, and the first row's
  sum replaced by \<open>NaN\<close>.
\<close>

definition group_sums :: "portfolio_row list \<Rightarrow> (string \<times> date \<times> pyfloat) list" where
  "group_sums rows =
     map (\<lambda>(q, sd).
            (q, sd, sum_skipna (map performance
                      (filter (\<lambda>r. quarter r = q \<and> sell_date r = sd) rows))))
       (sort (remdups (map (\<lambda>r. (quarter r, sell_date r)) rows)))"

definition first_nan :: "(string \<times> date \<times> pyfloat) list \<Rightarrow> perf_row list" where
  "first_nan rows =
     (case rows of
        [] \<Rightarrow> [NullRow]
      | (q, sd, v) # rest \<Rightarrow> Period q sd NaN # map (\<lambda>(q, sd, v). Period q sd v) rest)"

definition compose ::
  "position list \<Rightarrow> pc_row list \<Rightarrow> error + portfolio_row list \<times> perf_row list" where
  "compose ps pcs =
     (if \<not> sorted (map sell_date ps) \<or> \<not> sorted (map pc_sell_date pcs) then Inl ValueError
      else
        let portfolio = map (merge_row ps pcs) ps;
            perf = sort_key (\<lambda>(q, sd, v). sd) (group_sums portfolio)
        in Inr (portfolio, first_nan perf))"

text \<open>
  The comparison table, by columns: the sell dates, the quarter labels when the table has
  that column, and the numeric columns with their names, in the order of the frame.
\<close>

record comparison_table =
  cmp_sell_date :: "date list"
  cmp_quarter :: "string list option"
  cmp_columns :: "(string \<times> pyfloat list) list"

text \<open>The fund object: the tables it holds, and its two dictionaries as association lists
  in insertion order. \<open>comparison\<close> is \<open>None\<close> until \<open>calculate_returns\<close> has set it.\<close>

record hedge_fund =
  n_weeks :: nat
  positions :: "position list"
  self_price_change :: "pc_row list"
  sp500_change :: series
  portfolios :: "(string \<times> portfolio_row list) list"
  performances :: "(string \<times> perf_row list) list"
  comparison :: "comparison_table option"

text \<open>\<open>d[k] = v\<close> on a dictionary.\<close>

fun dict_set :: "('k \<times> 'v) list \<Rightarrow> 'k \<Rightarrow> 'v \<Rightarrow> ('k \<times> 'v) list" where
  "dict_set [] k v = [(k, v)]"
| "dict_set ((k', v') # kvs) k v =
     (if k' = k then (k, v) # kvs else (k', v') # dict_set kvs k v)"

definition create_portfolio :: "hedge_fund \<Rightarrow> string \<Rightarrow> error + hedge_fund" where
  "create_portfolio self approach =
     (case compose (positions self) (self_price_change self) of
        Inl e \<Rightarrow> Inl e
      | Inr (portfolio, perf) \<Rightarrow>
          Inr (self\<lparr>portfolios := dict_set (portfolios self) approach portfolio,
                    performances := dict_set (performances self) approach perf\<rparr>))"

text \<open>The return and the sell date of a row of a performance table.\<close>

fun row_return :: "perf_row \<Rightarrow> pyfloat" where
  "row_return (Period q sd v) = v"
| "row_return NullRow = NaN"

fun row_date :: "perf_row \<Rightarrow> date option" where
  "row_date (Period q sd v) = Some sd"
| "row_date NullRow = None"

text \<open>The number in a finite cell, 0 for the other cells.\<close>

fun fin_val :: "pyfloat \<Rightarrow> real" where
  "fin_val (Fin x) = x"
| "fin_val a = 0"

text \<open>
  Example tables of trailing returns, sorted by (date, ticker): weekly observations for
  AAA and BBB, and the same without any observation for BBB. \<open>example_fund\<close> is the fund
  after \<open>get_positions\<close> on \<open>two_filings\<close> and \<open>get_prices\<close>, with a benchmark series.
\<close>

definition example_returns :: "pc_row list" where
  "example_returns =
     [\<lparr>pc_sell_date = 19446, pc_ticker = ''AAA'', pc_price_change = Fin 3\<rparr>,
      \<lparr>pc_sell_date = 19537, pc_ticker = ''AAA'', pc_price_change = Fin 6\<rparr>,
      \<lparr>pc_sell_date = 19537, pc_ticker = ''BBB'', pc_price_change = Fin 12\<rparr>,
      \<lparr>pc_sell_date = 19544, pc_ticker = ''AAA'', pc_price_change = Fin 9\<rparr>,
      \<lparr>pc_sell_date = 19544, pc_ticker = ''BBB'', pc_price_change = Fin 15\<rparr>]"

definition returns_without_bbb :: "pc_row list" where
  "returns_without_bbb = filter (\<lambda>r. pc_ticker r \<noteq> ''BBB'') example_returns"

text \<open>
  A table of trailing returns with a missing week: AAA is observed on 2023-06-24 and on
  2023-07-08, seven days before and seven days after the sell date 2023-07-01 of the
  second filing, and BBB is not observed at all.
\<close>

definition tied_returns :: "pc_row list" where
  "tied_returns =
     [\<lparr>pc_sell_date = 19446, pc_ticker = ''AAA'', pc_price_change = Fin 3\<rparr>,
      \<lparr>pc_sell_date = 19532, pc_ticker = ''AAA'', pc_price_change = Fin 6\<rparr>,
      \<lparr>pc_sell_date = 19546, pc_ticker = ''AAA'', pc_price_change = Fin 9\<rparr>]"

definition example_fund :: hedge_fund where
  "example_fund =
     \<lparr>n_weeks = 13, positions = two_positions, self_price_change = example_returns,
      sp500_change = [(19446, Fin 1), (19537, Fin (1003 / 500)), (19544, Fin (5 / 2))],
      portfolios = [], performances = [], comparison = None\<rparr>"

definition example_portfolio :: "portfolio_row list" where
  "example_portfolio =
     [\<lparr>date = 19358, ticker = ''AAA'', class_col = ''COM'', shares = Fin 1000,
        sell_date = 19449, change = NaN, value_col = Fin 7000000, quarter = ''q1_2023'',
        price_change = Fin 3, weight = Fin 1, performance = Fin 3\<rparr>,
      \<lparr>date = 19448, ticker = ''AAA'', class_col = ''COM'', shares = Fin 1500,
        sell_date = 19539, change = Fin 500, value_col = Fin 10000000,
        quarter = ''q2_2023'',
        price_change = Fin 6, weight = Fin (2 / 3), performance = Fin 4\<rparr>,
      \<lparr>date = 19448, ticker = ''BBB'', class_col = ''COM'', shares = Fin 2000,
        sell_date = 19539, change = Fin 2000, value_col = Fin 5000000,
        quarter = ''q2_2023'',
        price_change = Fin 12, weight = Fin (1 / 3), performance = Fin 4\<rparr>]"

definition example_performance :: "perf_row list" where
  "example_performance = [Period ''q1_2023'' 19449 NaN, Period ''q2_2023'' 19539 (Fin 8)]"

definition portfolio_without_bbb :: "portfolio_row list" where
  "portfolio_without_bbb =
     [\<lparr>date = 19358, ticker = ''AAA'', class_col = ''COM'', shares = Fin 1000,
        sell_date = 19449, change = NaN, value_col = Fin 7000000, quarter = ''q1_2023'',
        price_change = Fin 3, weight = Fin 1, performance = Fin 3\<rparr>,
      \<lparr>date = 19448, ticker = ''AAA'', class_col = ''COM'', shares = Fin 1500,
        sell_date = 19539, change = Fin 500, value_col = Fin 10000000,
        quarter = ''q2_2023'',
        price_change = Fin 6, weight = Fin (2 / 3), performance = Fin 4\<rparr>,
      \<lparr>date = 19448, ticker = ''BBB'', class_col = ''COM'', shares = Fin 2000,
        sell_date = 19539, change = Fin 2000, value_col = Fin 5000000,
        quarter = ''q2_2023'',
        price_change = NaN, weight = Fin (1 / 3), performance = NaN\<rparr>]"

definition example_composed :: hedge_fund where
  "example_composed =
     example_fund\<lparr>portfolios := [(''simple'', example_portfolio)],
                  performances := [(''simple'', example_performance)]\<rparr>"

text \<open>A filing whose only position is worth nothing.\<close>

definition zero_positions :: "position list" where
  "zero_positions =
     [\<lparr>date = 19358, ticker = ''AAA'', class_col = ''COM'', shares = Fin 1000,
        sell_date = 19449, change = NaN, value_col = Fin 0, quarter = ''q1_2023''\<rparr>]"

definition zero_portfolio :: "portfolio_row list" where
  "zero_portfolio =
     [\<lparr>date = 19358, ticker = ''AAA'', class_col = ''COM'', shares = Fin 1000,
        sell_date = 19449, change = NaN, value_col = Fin 0, quarter = ''q1_2023'',
        price_change = Fin 3, weight = NaN, performance = NaN\<rparr>]"

section \<open>The comparator: \<open>calculate_returns\<close>, \<open>evaluate\<close> and \<open>plot_growth\<close>\<close>

text \<open>The rows of a performance table as (quarter, sell date, return); \<open>None\<close> when the
  table holds the all-missing row, whose sell date is missing.\<close>

fun period_rows :: "perf_row list \<Rightarrow> (string \<times> date \<times> pyfloat) list option" where
  "period_rows [] = Some []"
| "period_rows (NullRow # rs) = None"
| "period_rows (Period q sd v # rs) = map_option ((#) (q, sd, v)) (period_rows rs)"

text \<open>
  Lines 140 to 146, the frame that is merged with the benchmark. With several approaches
  each table has its return column renamed after its approach, loses every column
  named \<open>quarter\<close> and is indexed by its sell date, and the tables are joined on the
  union of their sell dates, a table without a row for a date giving \<open>NaN\<close> there. An
  approach called \<open>quarter\<close> so loses its return column as well and gives its sell
  dates only; for an approach called \<open>sell_date\<close> two columns have the name of the index
  and \<open>set_index\<close> raises ValueError. With one approach the table is taken as it is, its
  return column being named \<open>performance\<close>; taking the first of no table is an
  IndexError. (The sell dates of one table are distinct: a table is written by
  \<open>create_portfolio\<close> only, with one row for a quarter and a sell date.)
\<close>

definition combine ::
  "(string \<times> (string \<times> date \<times> pyfloat) list) list \<Rightarrow> error + comparison_table" where
  "combine tables =
     (if 1 < length tables then
        if ''sell_date'' \<in> set (map fst tables) then Inl ValueError
        else
          let dates = sort (remdups (concat (map (\<lambda>(a, t). map (\<lambda>(q, sd, v). sd) t) tables)))
          in Inr \<lparr>cmp_sell_date = dates, cmp_quarter = None,
                  cmp_columns =
                    map (\<lambda>(a, t). (a, map (\<lambda>d. case map_of (map snd t) d of
                                                    None \<Rightarrow> NaN | Some v \<Rightarrow> v) dates))
                      (filter (\<lambda>(a, t). a \<noteq> ''quarter'') tables)\<rparr>
      else
        case tables of
          [] \<Rightarrow> Inl IndexError
        | (a, t) # _ \<Rightarrow>
            Inr \<lparr>cmp_sell_date = map (\<lambda>(q, sd, v). sd) t,
                 cmp_quarter = Some (map (\<lambda>(q, sd, v). q) t),
                 cmp_columns = [(''performance'', map (\<lambda>(q, sd, v). v) t)]\<rparr>)"

text \<open>The \<open>VOO\<close> column that \<open>merge_asof\<close> adds: for every sell date the benchmark return
  of the nearest date, \<open>NaN\<close> when the benchmark series is empty.\<close>

definition benchmark_column :: "series \<Rightarrow> date list \<Rightarrow> pyfloat list" where
  "benchmark_column sp dates =
     map (\<lambda>d. case asof_nearest d sp of None \<Rightarrow> NaN | Some x \<Rightarrow> x) dates"

text \<open>\<open>sort_values(by='sell_date')\<close>: the rows in the order of a stable argsort of the
  sell dates.\<close>

definition sort_by_sell_date :: "comparison_table \<Rightarrow> comparison_table" where
  "sort_by_sell_date c =
     (let order = sort_key (\<lambda>i. cmp_sell_date c ! i) [0..<length (cmp_sell_date c)]
      in \<lparr>cmp_sell_date = map (\<lambda>i. cmp_sell_date c ! i) order,
          cmp_quarter = map_option (\<lambda>qs. map (\<lambda>i. qs ! i) order) (cmp_quarter c),
          cmp_columns = map (\<lambda>(name, xs). (name, map (\<lambda>i. xs ! i) order)) (cmp_columns c)\<rparr>)"

text \<open>
  The numeric columns that \<open>merge_asof\<close> returns (line 149): the columns of the left frame
  followed by the benchmark's. When the left frame has a column \<open>VOO\<close> of its own (an
  approach of that name), the two are told apart by the suffixes \<open>_x\<close> and \<open>_y\<close>, and
  pandas 2 raises MergeError when the suffixed name \<open>VOO_x\<close> is itself a column of the
  left frame.
\<close>

definition merge_benchmark ::
  "(string \<times> pyfloat list) list \<Rightarrow> pyfloat list \<Rightarrow> error + (string \<times> pyfloat list) list" where
  "merge_benchmark cols voo =
     (if ''VOO'' \<in> set (map fst cols) then
        if ''VOO_x'' \<in> set (map fst cols) then Inl MergeError
        else Inr (map (\<lambda>(name, xs). (if name = ''VOO'' then ''VOO_x'' else name, xs)) cols
                   @ [(''VOO_y'', voo)])
      else Inr (cols @ [(''VOO'', voo)]))"

text \<open>
  Lines 149 to 152: the numeric columns after the merge with the benchmark. When the
  merged frame has a column named \<open>performance\<close>, the outperformance column is assigned:
  the difference of the columns \<open>performance\<close> and \<open>VOO\<close>, a KeyError when there is no
  column \<open>VOO\<close>. The assignment replaces a column of that name and appends the column
  otherwise.
\<close>

definition with_benchmark ::
  "comparison_table \<Rightarrow> series \<Rightarrow> error + (string \<times> pyfloat list) list" where
  "with_benchmark c sp =
     (case merge_benchmark (cmp_columns c) (benchmark_column sp (cmp_sell_date c)) of
        Inl e \<Rightarrow> Inl e
      | Inr cols \<Rightarrow>
          (case map_of cols ''performance'' of
             None \<Rightarrow> Inr cols
           | Some p \<Rightarrow>
               (case map_of cols ''VOO'' of
                  None \<Rightarrow> Inl KeyError
                | Some b \<Rightarrow> Inr (dict_set cols ''outperformance'' (map2 pf_sub p b)))))"

text \<open>
  Lines 140 to 153. \<open>merge_asof\<close> raises ValueError when a left key is missing or when
  the keys of either side are not sorted. Every numeric column is rounded, and the rows
  are sorted by sell date.
\<close>

definition compare ::
  "(string \<times> perf_row list) list \<Rightarrow> series \<Rightarrow> error + comparison_table" where
  "compare perfs sp =
     (case those (map (\<lambda>(a, t). map_option (Pair a) (period_rows t)) perfs) of
        None \<Rightarrow> Inl ValueError
      | Some tables \<Rightarrow>
          (case combine tables of
             Inl e \<Rightarrow> Inl e
           | Inr c \<Rightarrow>
               if \<not> sorted (cmp_sell_date c) \<or> \<not> sorted (map fst sp) then Inl ValueError
               else
                 (case with_benchmark c sp of
                    Inl e \<Rightarrow> Inl e
                  | Inr cols \<Rightarrow>
                      Inr (sort_by_sell_date
                             (c\<lparr>cmp_columns :=
                                  map (\<lambda>(name, xs). (name, map round2 xs)) cols\<rparr>)))))"

definition calculate_returns :: "hedge_fund \<Rightarrow> error + hedge_fund" where
  "calculate_returns self =
     (case (if performances self = [] then create_portfolio self ''simple'' else Inr self) of
        Inl e \<Rightarrow> Inl e
      | Inr self1 \<Rightarrow>
          (case compare (performances self1) (sp500_change self1) of
             Inl e \<Rightarrow> Inl e
           | Inr c \<Rightarrow> Inr (self1\<lparr>comparison := Some c\<rparr>)))"

text \<open>\<open>evaluate\<close>: the three stages in a row; the comparison is in the returned fund.\<close>

definition evaluate ::
  "(string \<Rightarrow> pyfloat option) \<Rightarrow> price_source \<Rightarrow> snapshot list \<Rightarrow> hedge_fund \<Rightarrow>
     error + hedge_fund" where
  "evaluate to_float src files self =
     (case get_positions to_float (n_weeks self) files of
        Inl e \<Rightarrow> Inl e
      | Inr ps \<Rightarrow>
          (case get_prices src (n_weeks self) ps of
             Inl e \<Rightarrow> Inl e
           | Inr (pcs, sp) \<Rightarrow>
               calculate_returns
                 (self\<lparr>positions := ps, self_price_change := pcs, sp500_change := sp\<rparr>)))"

text \<open>\<open>cumprod()\<close>: the running product; a missing cell stays missing and is passed over.\<close>

fun cumprod_from :: "pyfloat \<Rightarrow> pyfloat list \<Rightarrow> pyfloat list" where
  "cumprod_from acc [] = []"
| "cumprod_from acc (x # xs) =
     (if x = NaN then NaN # cumprod_from acc xs
      else pf_mul acc x # cumprod_from (pf_mul acc x) xs)"

definition cumprod :: "pyfloat list \<Rightarrow> pyfloat list" where
  "cumprod xs = cumprod_from (Fin 1) xs"

text \<open>
  Lines 175 to 180 of \<open>plot_growth\<close>, the table that is plotted: missing cells filled with
  0, every column other than \<open>quarter\<close>, \<open>sell_date\<close> and \<open>outperformance\<close> turned into
  growth factors and into the running value of the principal, and all rounded.
\<close>

definition growth_column :: "real \<Rightarrow> pyfloat list \<Rightarrow> pyfloat list" where
  "growth_column amount xs =
     map (\<lambda>x. pf_mul x (Fin amount))
       (cumprod (map (\<lambda>x. pf_add (pf_div x (Fin 100)) (Fin 1)) xs))"

definition growth_table :: "real \<Rightarrow> comparison_table \<Rightarrow> comparison_table" where
  "growth_table amount c =
     c\<lparr>cmp_columns :=
         map (\<lambda>(name, xs).
                (name,
                 map round2
                   (let filled = map (fillna (Fin 0)) xs
                    in if name \<in> set [''quarter'', ''sell_date'', ''outperformance'']
                       then filled else growth_column amount filled)))
           (cmp_columns c)\<rparr>"

definition plot_growth :: "hedge_fund \<Rightarrow> real \<Rightarrow> comparison_table option" where
  "plot_growth self amount = map_option (growth_table amount) (comparison self)"

text \<open>A comparison of two periods whose first return is undefined and whose second return
  is 5 percent.\<close>

definition undefined_then_five :: comparison_table where
  "undefined_then_five =
     \<lparr>cmp_sell_date = [19449, 19539], cmp_quarter = Some [''q1_2023'', ''q2_2023''],
      cmp_columns = [(''performance'', [NaN, Fin 5])]\<rparr>"

text \<open>
  The comparison of \<open>example_fund\<close>, and funds holding two approaches: \<open>momentum\<close> and
  \<open>simple\<close>, and \<open>performance\<close> and \<open>simple\<close>.
\<close>

definition example_comparison :: comparison_table where
  "example_comparison =
     \<lparr>cmp_sell_date = [19449, 19539], cmp_quarter = Some [''q1_2023'', ''q2_2023''],
      cmp_columns =
        [(''performance'', [NaN, Fin 8]), (''VOO'', [Fin 1, Fin (201 / 100)]),
         (''outperformance'', [NaN, Fin (599 / 100)])]\<rparr>"

definition fund_momentum_simple :: hedge_fund where
  "fund_momentum_simple =
     example_fund\<lparr>portfolios := [(''momentum'', example_portfolio), (''simple'', example_portfolio)],
                  performances :=
                    [(''momentum'', example_performance), (''simple'', example_performance)]\<rparr>"

definition fund_performance :: hedge_fund where
  "fund_performance =
     example_fund\<lparr>portfolios := [(''performance'', example_portfolio)],
                  performances := [(''performance'', example_performance)]\<rparr>"

definition fund_performance_simple :: hedge_fund where
  "fund_performance_simple =
     example_fund\<lparr>portfolios := [(''performance'', example_portfolio), (''simple'', example_portfolio)],
                  performances :=
                    [(''performance'', example_performance), (''simple'', example_performance)]\<rparr>"

definition comparison_performance_simple :: comparison_table where
  "comparison_performance_simple =
     \<lparr>cmp_sell_date = [19449, 19539], cmp_quarter = None,
      cmp_columns =
        [(''performance'', [NaN, Fin 8]), (''simple'', [NaN, Fin 8]),
         (''VOO'', [Fin 1, Fin (201 / 100)]),
         (''outperformance'', [NaN, Fin (599 / 100)])]\<rparr>"

definition comparison_momentum_simple :: comparison_table where
  "comparison_momentum_simple =
     \<lparr>cmp_sell_date = [19449, 19539], cmp_quarter = None,
      cmp_columns =
        [(''momentum'', [NaN, Fin 8]), (''simple'', [NaN, Fin 8]),
         (''VOO'', [Fin 1, Fin (201 / 100)])]\<rparr>"

section \<open>A run with unavailable prices\<close>

text \<open>
  The price source has no data for ticker \<open>t\<close>: every column of the frame labelled \<open>t\<close>,
  if there is one, holds missing prices only.
\<close>

definition unavailable :: "frame \<Rightarrow> string \<Rightarrow> bool" where
  "unavailable fr t = list_all (\<lambda>(name, xs). name \<noteq> t \<or> list_all (\<lambda>x. x = NaN) xs) (snd fr)"

text \<open>
  An example run with a look-back of one week on the store \<open>two_filings\<close>. The price
  source answers with the weeks of 2023-04-01 and 2023-04-08, prices for AAA, a column
  of missing prices for BBB, and an empty series for the benchmark. \<open>fresh_fund\<close> is the
  fund as the constructor leaves it.
\<close>

definition no_bbb_no_benchmark :: price_source where
  "no_bbb_no_benchmark =
     \<lparr>download = (\<lambda>tickers start end.
         ([19448, 19455], [(''AAA'', [Fin 100, Fin 106]), (''BBB'', [NaN, NaN])])),
      download_one = (\<lambda>t start end. [])\<rparr>"

definition fresh_fund :: hedge_fund where
  "fresh_fund =
     \<lparr>n_weeks = 1, positions = [], self_price_change = [], sp500_change = [],
      portfolios = [], performances = [], comparison = None\<rparr>"

definition week_positions :: "position list" where
  "week_positions =
     [\<lparr>date = 19358, ticker = ''AAA'', class_col = ''COM'', shares = Fin 1000,
        sell_date = 19365, change = NaN, value_col = Fin 7000000, quarter = ''q1_2023''\<rparr>,
      \<lparr>date = 19448, ticker = ''AAA'', class_col = ''COM'', shares = Fin 1500,
        sell_date = 19455, change = Fin 500, value_col = Fin 10000000,
        quarter = ''q2_2023''\<rparr>,
      \<lparr>date = 19448, ticker = ''BBB'', class_col = ''COM'', shares = Fin 2000,
        sell_date = 19455, change = Fin 2000, value_col = Fin 5000000,
        quarter = ''q2_2023''\<rparr>]"

definition week_returns :: "pc_row list" where
  "week_returns =
     [\<lparr>pc_sell_date = 19448, pc_ticker = ''AAA'', pc_price_change = NaN\<rparr>,
      \<lparr>pc_sell_date = 19448, pc_ticker = ''BBB'', pc_price_change = NaN\<rparr>,
      \<lparr>pc_sell_date = 19455, pc_ticker = ''AAA'', pc_price_change = Fin 6\<rparr>,
      \<lparr>pc_sell_date = 19455, pc_ticker = ''BBB'', pc_price_change = NaN\<rparr>]"

definition week_portfolio :: "portfolio_row list" where
  "week_portfolio =
     [\<lparr>date = 19358, ticker = ''AAA'', class_col = ''COM'', shares = Fin 1000,
        sell_date = 19365, change = NaN, value_col = Fin 7000000, quarter = ''q1_2023'',
        price_change = NaN, weight = Fin 1, performance = NaN\<rparr>,
      \<lparr>date = 19448, ticker = ''AAA'', class_col = ''COM'', shares = Fin 1500,
        sell_date = 19455, change = Fin 500, value_col = Fin 10000000,
        quarter = ''q2_2023'',
        price_change = Fin 6, weight = Fin (2 / 3), performance = Fin 4\<rparr>,
      \<lparr>date = 19448, ticker = ''BBB'', class_col = ''COM'', shares = Fin 2000,
        sell_date = 19455, change = Fin 2000, value_col = Fin 5000000,
        quarter = ''q2_2023'',
        price_change = NaN, weight = Fin (1 / 3), performance = NaN\<rparr>]"

definition week_comparison :: comparison_table where
  "week_comparison =
     \<lparr>cmp_sell_date = [19365, 19455], cmp_quarter = Some [''q1_2023'', ''q2_2023''],
      cmp_columns =
        [(''performance'', [NaN, Fin 4]), (''VOO'', [NaN, NaN]),
         (''outperformance'', [NaN, NaN])]\<rparr>"

definition week_evaluated :: hedge_fund where
  "week_evaluated =
     \<lparr>n_weeks = 1, positions = week_positions, self_price_change = week_returns,
      sp500_change = [],
      portfolios = [(''simple'', week_portfolio)],
      performances =
        [(''simple'', [Period ''q1_2023'' 19365 NaN, Period ''q2_2023'' 19455 (Fin 4)])],
      comparison = Some week_comparison\<rparr>"

section \<open>Properties of the loader\<close>

lemma those_eq_None: "those xs = None \<longleftrightarrow> None \<in> set xs"
  by (induction xs) (auto split: option.splits)

lemma those_length: "those xs = Some ys \<Longrightarrow> length ys = length xs"
  by (induction xs arbitrary: ys) (auto split: option.splits)

lemma astype_float_Inl:
  "astype_float tf whole cells = Inl e \<longleftrightarrow>
     e = AttributeError \<and> \<not> str_accessor whole cells \<or>
     e = ValueError \<and> str_accessor whole cells \<and>
       list_ex (\<lambda>c. cell_to_float tf c = None) cells"
proof -
  have "those (map (cell_to_float tf) cells) = None \<longleftrightarrow>
      list_ex (\<lambda>c. cell_to_float tf c = None) cells"
    unfolding those_eq_None list_ex_iff by (metis (mono_tags, lifting) image_iff list.set_map)
  then show ?thesis
    by (cases "those (map (cell_to_float tf) cells)") (auto simp: astype_float_def)
qed

lemma astype_float_Inr:
  "astype_float tf whole cells = Inr xs \<Longrightarrow>
     str_accessor whole cells \<and> \<not> list_ex (\<lambda>c. cell_to_float tf c = None) cells"
  using astype_float_Inl [of tf whole cells AttributeError]
    astype_float_Inl [of tf whole cells ValueError]
  by auto

lemma astype_float_Inr_length:
  "astype_float tf whole cells = Inr xs \<Longrightarrow> length xs = length cells"
  by (auto simp: astype_float_def dest: those_length split: option.splits if_splits)

lemma float_of_digits_examples:
  "float_of_digits ''1000'' = Some (Fin 1000)"
  "float_of_digits ''7000'' = Some (Fin 7000)"
  "float_of_digits ''70x0'' = None"
  by (simp_all add: float_of_digits_def digit_val_def)

lemma quarter_label_examples:
  "quarter_label 19358 = ''q1_2023''"
  "quarter_label 19448 = ''q2_2023''"
  by code_simp+

lemma normalize_one_filing:
  "normalize_rows one_filing =
     [(19358, ''AAA'', \<lparr>sym_col = Some ''AAA'', cl_col = Str ''COM'', shares_raw = Str ''1,000'',
         value_raw = Str ''7,000''\<rparr>)]"
  by (simp add: one_filing_def normalize_rows_def with_ticker_def class_text_def List.map_filter_def
      exp_or_unit_def
      upper_char_def)

lemma normalize_bad_cell:
  "normalize_rows bad_cell =
     [(19358, ''AAA'', \<lparr>sym_col = Some ''AAA'', cl_col = Str ''COM'', shares_raw = Str ''1,000'',
         value_raw = Str ''7,0x0''\<rparr>)]"
  by (simp add: bad_cell_def normalize_rows_def with_ticker_def class_text_def List.map_filter_def
      exp_or_unit_def
      upper_char_def)

lemma normalize_plain_numbers:
  "normalize_rows plain_numbers =
     [(19358, ''AAA'', \<lparr>sym_col = Some ''AAA'', cl_col = Str ''COM'', shares_raw = Num 1000,
         value_raw = Num 7000\<rparr>)]"
  by (simp add: plain_numbers_def normalize_rows_def with_ticker_def class_text_def List.map_filter_def
      exp_or_unit_def
      upper_char_def)

lemma normalize_missing_cell:
  "normalize_rows missing_cell =
     [(19358, ''AAA'', \<lparr>sym_col = Some ''AAA'', cl_col = Str ''COM'', shares_raw = Str ''1,000'',
         value_raw = Missing\<rparr>),
      (19358, ''BBB'', \<lparr>sym_col = Some ''BBB'', cl_col = Str ''COM'', shares_raw = Str ''2,000'',
         value_raw = Str ''5,000''\<rparr>)]"
  by (simp add: missing_cell_def normalize_rows_def with_ticker_def class_text_def List.map_filter_def
      exp_or_unit_def
      upper_char_def)

lemma class_ok:
  "class_error one_filing = None" "class_error bad_cell = None"
  "class_error plain_numbers = None" "class_error missing_cell = None"
  by (simp_all add: class_error_def with_ticker_def List.map_filter_def str_accessor_def
      is_str_def one_filing_def bad_cell_def plain_numbers_def missing_cell_def)

text \<open>
  The loader on a numeric column: a store written without thousands separators does not
  load, although every cell is a number; the \<open>.str\<close> accessor of line 59 raises
  AttributeError.
\<close>

lemma plain_numbers_fail:
  "get_positions float_of_digits 13 plain_numbers = Inl AttributeError"
  unfolding get_positions_def normalize_plain_numbers class_ok
  by (simp add: plain_numbers_def astype_float_def str_accessor_def is_str_def
      is_missing_def)

text \<open>A missing class cell beside a written one: line 53 raises TypeError.\<close>

lemma missing_class_fails:
  "get_positions float_of_digits 13 missing_class = Inl TypeError"
  by (simp add: get_positions_def class_error_def with_ticker_def List.map_filter_def
      str_accessor_def is_str_def missing_class_def)

text \<open>A missing value cell in a column of strings is no failure: it loads as \<open>NaN\<close>.\<close>

lemma missing_cell_loads:
  "get_positions float_of_digits 13 missing_cell =
     Inr [\<lparr>date = 19358, ticker = ''AAA'', class_col = ''COM'', shares = Fin 1000,
            sell_date = 19449, change = NaN, value_col = NaN, quarter = ''q1_2023''\<rparr>,
          \<lparr>date = 19358, ticker = ''BBB'', class_col = ''COM'', shares = Fin 2000,
            sell_date = 19449, change = NaN, value_col = Fin 5000000,
            quarter = ''q1_2023''\<rparr>]"
  unfolding get_positions_def normalize_missing_cell class_ok
  by (simp add: missing_cell_def astype_float_def str_accessor_def is_str_def is_missing_def
      cell_to_float_def strip_commas_def float_of_digits_def digit_val_def class_text_def
      share_change_def fillna_def mk_position_def quarter_label_examples)

text \<open>
  C8, as the code has it. The loader fails in these cases and in no other. Without any
  snapshot \<open>pd.concat\<close> raises the built-in ValueError. Line 53 raises AttributeError when
  the class column has no string for the \<open>.str\<close> accessor, and TypeError when a class
  cell of a row with a ticker is not a string. Then the share column is converted, and
  after it the value column: the \<open>.str\<close> accessor raises AttributeError when the column
  holds no string to strip, and \<open>astype(float)\<close> raises ValueError when a share count or
  a value of a retained row is a string that does not parse once its commas are
  stripped. The code defines no DataIntegrityError; a missing share or value cell in a
  column of strings loads as \<open>NaN\<close>; and the number of distinct filing dates plays no
  part: a store with a single filing date loads.
\<close>

theorem get_positions_fails:
  "(get_positions tf n files = Inl e \<longleftrightarrow>
      files = [] \<and> e = ValueError \<or>
      files \<noteq> [] \<and> class_error files = Some e \<or>
      files \<noteq> [] \<and> class_error files = None \<and> e = AttributeError \<and>
        (no_strings shares_raw files \<or>
         \<not> unparsed tf shares_raw files \<and> no_strings value_raw files) \<or>
      files \<noteq> [] \<and> class_error files = None \<and> e = ValueError \<and>
        \<not> no_strings shares_raw files \<and>
        (unparsed tf shares_raw files \<or>
         \<not> no_strings value_raw files \<and> unparsed tf value_raw files)) \<and>
   ((\<exists>ps. get_positions tf n files = Inr ps) \<longleftrightarrow>
      files \<noteq> [] \<and> class_error files = None \<and>
      \<not> no_strings shares_raw files \<and> \<not> no_strings value_raw files \<and>
      \<not> unparsed tf shares_raw files \<and> \<not> unparsed tf value_raw files)"
proof (cases "files = []")
  case True
  then show ?thesis by (auto simp: get_positions_def)
next
  case False
  show ?thesis
  proof (cases "class_error files")
    case (Some e')
    with False show ?thesis by (auto simp: get_positions_def)
  next
    case None
    define whole where "whole = concat (map snd files)"
    define rows where "rows = normalize_rows files"
    define sc where "sc = map (\<lambda>(d, t, r). shares_raw r) rows"
    define vc where "vc = map (\<lambda>(d, t, r). value_raw r) rows"
    have ns: "no_strings shares_raw files \<longleftrightarrow> \<not> str_accessor (map shares_raw whole) sc"
      and nv: "no_strings value_raw files \<longleftrightarrow> \<not> str_accessor (map value_raw whole) vc"
      by (simp_all add: no_strings_def whole_def rows_def sc_def vc_def)
    have us: "unparsed tf shares_raw files \<longleftrightarrow>
        list_ex (\<lambda>c. cell_to_float tf c = None) sc"
      and uv: "unparsed tf value_raw files \<longleftrightarrow>
        list_ex (\<lambda>c. cell_to_float tf c = None) vc"
      unfolding unparsed_def sc_def vc_def rows_def list_ex_iff
      by (auto simp: image_iff) force+
    have gp: "get_positions tf n files =
        (case astype_float tf (map shares_raw whole) sc of
           Inl e \<Rightarrow> Inl e
         | Inr shs \<Rightarrow>
            (case astype_float tf (map value_raw whole) vc of
               Inl e \<Rightarrow> Inl e
             | Inr vals \<Rightarrow>
                 Inr (map2 (mk_position n) rows
                   (zip shs (zip (share_change (map2 (\<lambda>(d, t, r) s. (d, t, s)) rows shs))
                      vals)))))"
      unfolding get_positions_def Let_def whole_def rows_def sc_def vc_def None
      using False by simp
    show ?thesis
    proof (cases "astype_float tf (map shares_raw whole) sc")
      case (Inl e1)
      then show ?thesis
        using False None ns us astype_float_Inl [of tf "map shares_raw whole" sc e1]
        by (auto simp: gp)
    next
      case sh: (Inr shs)
      note s = astype_float_Inr [OF sh]
      show ?thesis
      proof (cases "astype_float tf (map value_raw whole) vc")
        case (Inl e2)
        then show ?thesis
          using False None ns us nv uv s sh
            astype_float_Inl [of tf "map value_raw whole" vc e2]
          by (auto simp: gp)
      next
        case (Inr vals)
        then show ?thesis
          using False None ns us nv uv s sh astype_float_Inr [OF Inr]
          by (auto simp: gp)
      qed
    qed
  qed
qed

theorem get_positions_fails_witness:
  "get_positions float_of_digits 13 bad_cell = Inl ValueError \<and>
   get_positions float_of_digits 13 plain_numbers = Inl AttributeError \<and>
   get_positions float_of_digits 13 missing_class = Inl TypeError \<and>
   get_positions float_of_digits 13 [] = Inl ValueError"
proof -
  have n1: "\<not> no_strings shares_raw bad_cell" "\<not> no_strings value_raw bad_cell"
    by (simp_all add: no_strings_def normalize_bad_cell str_accessor_def is_str_def)
      (simp_all add: bad_cell_def is_str_def)
  have u1: "\<not> unparsed float_of_digits shares_raw bad_cell"
    "unparsed float_of_digits value_raw bad_cell"
    by (simp_all add: unparsed_def normalize_bad_cell cell_to_float_def strip_commas_def
        float_of_digits_examples)
  have n2: "no_strings shares_raw plain_numbers"
    by (simp add: no_strings_def normalize_plain_numbers str_accessor_def is_str_def
        is_missing_def plain_numbers_def)
  have p: "plain_numbers \<noteq> []" "bad_cell \<noteq> []" "missing_class \<noteq> []"
    by (simp_all add: plain_numbers_def bad_cell_def missing_class_def)
  have c: "class_error missing_class = Some TypeError"
    by (simp add: class_error_def with_ticker_def List.map_filter_def
      str_accessor_def is_str_def missing_class_def)
  from get_positions_fails [of float_of_digits 13 bad_cell ValueError]
    get_positions_fails [of float_of_digits 13 plain_numbers AttributeError]
    get_positions_fails [of float_of_digits 13 missing_class TypeError]
    get_positions_fails [of float_of_digits 13 "[]" ValueError]
    n1 u1 n2 p c class_ok
  show ?thesis by simp
qed

text \<open>
  C8 as stated fails: the store \<open>one_filing\<close> holds a single filing date, and the loader
  returns its table instead of raising.
\<close>

theorem one_filing_loads:
  "get_positions float_of_digits 13 one_filing =
     Inr [\<lparr>date = 19358, ticker = ''AAA'', class_col = ''COM'', shares = Fin 1000,
            sell_date = 19449, change = NaN, value_col = Fin 7000000,
            quarter = ''q1_2023''\<rparr>]"
  unfolding get_positions_def normalize_one_filing class_ok
  by (simp add: one_filing_def astype_float_def str_accessor_def is_str_def
      cell_to_float_def strip_commas_def float_of_digits_examples class_text_def
      share_change_def fillna_def mk_position_def quarter_label_examples)

lemma length_group_diff: "length (group_diff seen xs) = length xs"
  by (induction seen xs rule: group_diff.induct) auto

lemma group_diff_nth:
  "i < length xs \<Longrightarrow>
   group_diff seen xs ! i =
     (case map_of (rev (take i xs) @ seen) (fst (xs ! i)) of
        None \<Rightarrow> NaN | Some s' \<Rightarrow> pf_sub (snd (xs ! i)) s')"
proof (induction seen xs arbitrary: i rule: group_diff.induct)
  case (1 seen)
  then show ?case by simp
next
  case (2 seen t s rest)
  show ?case
  proof (cases i)
    case 0
    then show ?thesis by (auto split: option.splits)
  next
    case (Suc j)
    with "2.prems" have j: "j < length rest" by simp
    have a: "group_diff seen ((t, s) # rest) ! i = group_diff ((t, s) # seen) rest ! j"
      using Suc by simp
    have b: "rev (take i ((t, s) # rest)) @ seen = rev (take j rest) @ (t, s) # seen"
      using Suc by simp
    have c: "((t, s) # rest) ! i = rest ! j" using Suc by simp
    show ?thesis unfolding a b c by (rule "2.IH" [OF j])
  qed
qed

lemma length_share_change: "length (share_change rows) = length rows"
  by (cases rows) (simp_all add: share_change_def length_group_diff Let_def)

lemma share_change_nth:
  assumes "i < length rows"
  shows "share_change rows ! i =
     (if fst (rows ! i) = min_list (map fst rows) then NaN
      else fillna (snd (snd (rows ! i))) (group_diff [] (map snd rows) ! i))"
proof -
  from assms obtain x xs where rows: "rows = x # xs" by (cases rows) auto
  have "share_change rows ! i =
      map2 (\<lambda>(d, t, s) c. if d = min_list (map fst rows) then NaN else c) rows
        (map2 fillna (map (\<lambda>(d, t, s). s) rows) (group_diff [] (map snd rows))) ! i"
    unfolding share_change_def Let_def rows by simp
  also have "\<dots> = (if fst (rows ! i) = min_list (map fst rows) then NaN
      else fillna (snd (snd (rows ! i))) (group_diff [] (map snd rows) ! i))"
    using assms by (simp add: length_group_diff split_beta)
  finally show ?thesis .
qed

lemma map_of_rev_take_None:
  "(\<forall>k<i. fst (xs ! k) \<noteq> t) \<Longrightarrow> i \<le> length xs \<Longrightarrow> map_of (rev (take i xs)) t = None"
proof -
  assume a: "\<forall>k<i. fst (xs ! k) \<noteq> t" and le: "i \<le> length xs"
  have "t \<notin> fst ` set (take i xs)"
  proof
    assume "t \<in> fst ` set (take i xs)"
    then obtain k where "k < length (take i xs)" "fst (take i xs ! k) = t"
      by (auto simp: in_set_conv_nth)
    then have "k < i" "fst (xs ! k) = t" by simp_all
    with a show False by blast
  qed
  then show ?thesis by (simp add: map_of_eq_None_iff)
qed

lemma map_of_rev_take_Some:
  assumes "j < i" "i \<le> length xs" "fst (xs ! j) = t"
    and "\<forall>k. j < k \<and> k < i \<longrightarrow> fst (xs ! k) \<noteq> t"
  shows "map_of (rev (take i xs)) t = Some (snd (xs ! j))"
proof -
  define mid where "mid = take (i - Suc j) (drop (Suc j) xs)"
  have split: "take i xs = take j xs @ xs ! j # mid"
  proof -
    have "take i xs = take j (take i xs) @ (take i xs) ! j # drop (Suc j) (take i xs)"
      using assms(1,2) by (intro id_take_nth_drop) simp
    also have "take j (take i xs) = take j xs" using assms(1) by (simp add: min_def)
    also have "(take i xs) ! j = xs ! j" using assms(1) by simp
    also have "drop (Suc j) (take i xs) = mid" by (simp add: mid_def drop_take)
    finally show ?thesis .
  qed
  have "t \<notin> fst ` set mid"
  proof
    assume "t \<in> fst ` set mid"
    then obtain m where m: "m < length mid" "fst (mid ! m) = t"
      by (auto simp: in_set_conv_nth)
    from m(1) have lt: "m < i - Suc j" by (simp add: mid_def)
    with assms(1,2) have b: "j < Suc j + m" "Suc j + m < i" "Suc j + m < length xs"
      by arith+
    have "mid ! m = xs ! (Suc j + m)" using lt b(3) by (simp add: mid_def)
    with assms(4) b m(2) show False by metis
  qed
  then have "map_of (rev mid) t = None" by (simp add: map_of_eq_None_iff)
  then show ?thesis
    using assms(3) by (cases "xs ! j") (simp add: split map_add_def)
qed



lemma sorted_normalize_rows: "sorted (map (\<lambda>(d, t, r). (d, t)) (normalize_rows files))"
  unfolding normalize_rows_def with_ticker_def Let_def
  by (intro sorted_filter) (rule sorted_sort_key)

lemma get_positions_shape:
  assumes "get_positions tf n files = Inr ps"
  shows "map change ps = share_change (keyed ps)"
    and "sorted (map (\<lambda>p. (date p, ticker p)) ps)"
    and "\<forall>p\<in>set ps. sell_date p = date p + 7 * int n \<and> quarter p = quarter_label (date p)"
proof -
  define rows where "rows = normalize_rows files"
  from assms obtain shs vals where
    sh: "astype_float tf (map shares_raw (concat (map snd files)))
           (map (\<lambda>(d, t, r). shares_raw r) rows) = Inr shs" and
    va: "astype_float tf (map value_raw (concat (map snd files)))
           (map (\<lambda>(d, t, r). value_raw r) rows) = Inr vals" and
    ps: "ps = map2 (mk_position n) rows
           (zip shs (zip (share_change (map2 (\<lambda>(d, t, r) s. (d, t, s)) rows shs)) vals))"
    unfolding get_positions_def Let_def rows_def
    by (auto split: if_splits sum.splits option.splits)
  define ks where "ks = map2 (\<lambda>(d, t, r) s. (d, t, s)) rows shs"
  have l1: "length shs = length rows" using astype_float_Inr_length [OF sh] by simp
  have l2: "length vals = length rows" using astype_float_Inr_length [OF va] by simp
  have l3: "length ks = length rows" by (simp add: ks_def l1)
  have l4: "length (share_change ks) = length rows" by (simp add: length_share_change l3)
  have lp: "length ps = length rows" by (simp add: ps ks_def [symmetric] l1 l2 l4)
  have nth: "ps ! i = mk_position n (rows ! i) (shs ! i, share_change ks ! i, vals ! i)"
    if "i < length rows" for i
    using that by (simp add: ps ks_def [symmetric] l1 l2 l4)
  have k: "keyed ps = ks"
    by (rule nth_equalityI)
      (auto simp: keyed_def lp l3 nth ks_def l1 mk_position_def split: prod.splits)
  show "map change ps = share_change (keyed ps)"
    unfolding k
    by (rule nth_equalityI) (auto simp: lp l4 nth mk_position_def split: prod.splits)
  have "map (\<lambda>p. (date p, ticker p)) ps = map (\<lambda>(d, t, r). (d, t)) rows"
    by (rule nth_equalityI) (auto simp: lp nth mk_position_def split: prod.splits)
  then show "sorted (map (\<lambda>p. (date p, ticker p)) ps)"
    using sorted_normalize_rows [of files] by (simp add: rows_def)
  show "\<forall>p\<in>set ps. sell_date p = date p + 7 * int n \<and> quarter p = quarter_label (date p)"
    by (auto simp: in_set_conv_nth lp nth mk_position_def split: prod.splits)
qed


lemma change_nth:
  assumes "map change ps = share_change (keyed ps)" and "i < length ps"
  shows "change (ps ! i) =
     (if date (ps ! i) = Min (date ` set ps) then NaN
      else fillna (shares (ps ! i))
        (case map_of (rev (take i (map (\<lambda>p. (ticker p, shares p)) ps))) (ticker (ps ! i)) of
           None \<Rightarrow> NaN | Some s' \<Rightarrow> pf_sub (shares (ps ! i)) s'))"
proof -
  have ne: "map fst (keyed ps) \<noteq> []" using assms(2) by (auto simp: keyed_def)
  have m: "min_list (map fst (keyed ps)) = Min (date ` set ps)"
    using min_list_Min [OF ne] by (simp add: keyed_def image_image)
  have s: "map snd (keyed ps) = map (\<lambda>p. (ticker p, shares p)) ps"
    by (simp add: keyed_def)
  have "change (ps ! i) = share_change (keyed ps) ! i"
    using assms by (metis nth_map)
  also have "\<dots> = (if fst (keyed ps ! i) = min_list (map fst (keyed ps)) then NaN
      else fillna (snd (snd (keyed ps ! i))) (group_diff [] (map snd (keyed ps)) ! i))"
    using assms(2) by (intro share_change_nth) (simp add: keyed_def)
  also have "group_diff [] (map snd (keyed ps)) ! i =
      (case map_of (rev (take i (map (\<lambda>p. (ticker p, shares p)) ps))) (ticker (ps ! i)) of
           None \<Rightarrow> NaN | Some s' \<Rightarrow> pf_sub (shares (ps ! i)) s')"
    using assms(2) group_diff_nth [of i "map snd (keyed ps)" "[]"]
    by (simp add: s cong: option.case_cong)
  finally have "change (ps ! i) =
      (if fst (keyed ps ! i) = min_list (map fst (keyed ps)) then NaN
       else fillna (snd (snd (keyed ps ! i)))
         (case map_of (rev (take i (map (\<lambda>p. (ticker p, shares p)) ps))) (ticker (ps ! i)) of
           None \<Rightarrow> NaN | Some s' \<Rightarrow> pf_sub (shares (ps ! i)) s'))" .
  moreover have "fst (keyed ps ! i) = date (ps ! i)" "snd (snd (keyed ps ! i)) = shares (ps ! i)"
    using assms(2) by (simp_all add: keyed_def)
  ultimately show ?thesis by (simp only: m)
qed

lemma earlier_in_table:
  assumes "sorted (map (\<lambda>p. (date p, ticker p)) ps)"
    and "i < length ps" "j < length ps" "date (ps ! j) < date (ps ! i)"
  shows "j < i"
proof (rule ccontr)
  assume "\<not> j < i"
  then have "i \<le> j" by simp
  with assms(1,3) have "map (\<lambda>p. (date p, ticker p)) ps ! i \<le> map (\<lambda>p. (date p, ticker p)) ps ! j"
    by (intro sorted_nth_mono) simp_all
  with assms(2,3) have "date (ps ! i) \<le> date (ps ! j)"
    by (auto simp: less_eq_prod_def)
  with assms(4) show False by simp
qed

lemma same_ticker_earlier:
  assumes "sorted (map (\<lambda>p. (date p, ticker p)) ps)"
    and "distinct (map (\<lambda>p. (date p, ticker p)) ps)"
    and "i < length ps" "j < i" "ticker (ps ! j) = ticker (ps ! i)"
  shows "date (ps ! j) < date (ps ! i)"
proof -
  let ?k = "map (\<lambda>p. (date p, ticker p)) ps"
  from assms(1,3,4) have "?k ! j \<le> ?k ! i" by (intro sorted_nth_mono) simp_all
  moreover have "j < length ?k" "i < length ?k" using assms(3,4) by simp_all
  with assms(2,4) have "?k ! j \<noteq> ?k ! i"
    using nth_eq_iff_index_eq [of ?k j i] by simp
  ultimately show ?thesis using assms(3,4,5)
    by (auto simp: less_eq_prod_def)
qed

lemma pf_sub_Fin [simp]: "pf_sub (Fin a) (Fin b) = Fin (a - b)"
  by (simp add: pf_sub_def)

lemma change_seed:
  assumes "map change ps = share_change (keyed ps)" and "r \<in> set ps"
    and "date r = Min (date ` set ps)"
  shows "change r = NaN"
proof -
  from assms(2) obtain i where i: "i < length ps" "ps ! i = r"
    by (auto simp: in_set_conv_nth)
  from change_nth [OF assms(1) i(1)] assms(3) i(2) show ?thesis by simp
qed

lemma change_first_appearance:
  assumes "map change ps = share_change (keyed ps)"
    and "sorted (map (\<lambda>p. (date p, ticker p)) ps)" and "unique_rows ps"
    and "r \<in> set ps" and "date r \<noteq> Min (date ` set ps)"
    and "\<forall>q\<in>set ps. ticker q = ticker r \<longrightarrow> date r \<le> date q"
  shows "change r = shares r"
proof -
  from assms(4) obtain i where i: "i < length ps" "ps ! i = r"
    by (auto simp: in_set_conv_nth)
  let ?xs = "map (\<lambda>p. (ticker p, shares p)) ps"
  have "\<forall>k<i. fst (?xs ! k) \<noteq> ticker r"
  proof (intro allI impI notI)
    fix k assume k: "k < i" and "fst (?xs ! k) = ticker r"
    then have t: "ticker (ps ! k) = ticker (ps ! i)" using i by simp
    from same_ticker_earlier [OF assms(2) assms(3) [unfolded unique_rows_def] i(1) k t]
    have "date (ps ! k) < date r" using i(2) by simp
    moreover have "ps ! k \<in> set ps" using k i(1) by simp
    ultimately show False using assms(6) t i(2) by fastforce
  qed
  then have "map_of (rev (take i ?xs)) (ticker r) = None"
    using i(1) by (intro map_of_rev_take_None) simp_all
  with change_nth [OF assms(1) i(1)] assms(5) i(2) show ?thesis
    by (simp add: fillna_def)
qed

lemma change_after_prev:
  assumes "map change ps = share_change (keyed ps)"
    and "sorted (map (\<lambda>p. (date p, ticker p)) ps)" and "unique_rows ps"
    and "r \<in> set ps" and "q \<in> set ps" and "prev_filing ps r q"
  shows "change r = fillna (shares r) (pf_sub (shares r) (shares q))"
proof -
  from assms(4) obtain i where i: "i < length ps" "ps ! i = r"
    by (auto simp: in_set_conv_nth)
  from assms(5) obtain j where j: "j < length ps" "ps ! j = q"
    by (auto simp: in_set_conv_nth)
  from assms(6) have tq: "ticker q = ticker r" and dq: "date q < date r"
    and mx: "\<And>q'. q' \<in> set ps \<Longrightarrow> ticker q' = ticker r \<Longrightarrow> date q' < date r \<Longrightarrow> date q' \<le> date q"
    by (auto simp: prev_filing_def)
  note d = assms(3) [unfolded unique_rows_def]
  have ji: "j < i"
    using earlier_in_table [OF assms(2) i(1) j(1)] dq i(2) j(2) by simp
  let ?xs = "map (\<lambda>p. (ticker p, shares p)) ps"
  have between: "\<forall>k. j < k \<and> k < i \<longrightarrow> fst (?xs ! k) \<noteq> ticker r"
  proof (intro allI impI notI)
    fix k assume k: "j < k \<and> k < i" and "fst (?xs ! k) = ticker r"
    then have t: "ticker (ps ! k) = ticker r" using i(1) by simp
    have kl: "k < length ps" using k i(1) by simp
    have "date (ps ! k) < date r"
      using same_ticker_earlier [OF assms(2) d i(1), of k] k t i(2) by simp
    then have "date (ps ! k) \<le> date q" using mx [of "ps ! k"] kl t by simp
    moreover have "date q < date (ps ! k)"
      using same_ticker_earlier [OF assms(2) d kl, of j] k t tq j(2) by simp
    ultimately show False by simp
  qed
  have "map_of (rev (take i ?xs)) (ticker r) = Some (snd (?xs ! j))"
    using ji i(1) j tq between by (intro map_of_rev_take_Some) simp_all
  then have m: "map_of (rev (take i ?xs)) (ticker r) = Some (shares q)"
    using j by simp
  have ne: "date r \<noteq> Min (date ` set ps)"
  proof -
    have "Min (date ` set ps) \<le> date q" using assms(5) by (intro Min_le) simp_all
    with dq show ?thesis by simp
  qed
  from change_nth [OF assms(1) i(1)] ne i(2) m show ?thesis
    by simp
qed

lemma fillna_Fin [simp]: "fillna s (Fin x) = Fin x"
  by (simp add: fillna_def)

lemma float_of_digits_more:
  "float_of_digits ''1500'' = Some (Fin 1500)"
  "float_of_digits ''2000'' = Some (Fin 2000)"
  "float_of_digits ''10000'' = Some (Fin 10000)"
  "float_of_digits ''5000'' = Some (Fin 5000)"
  "float_of_digits ''1100'' = Some (Fin 1100)"
  "float_of_digits ''1200'' = Some (Fin 1200)"
  "float_of_digits ''1300'' = Some (Fin 1300)"
  "float_of_digits ''1800'' = Some (Fin 1800)"
  by (simp_all add: float_of_digits_def digit_val_def)

lemma quarter_label_q3: "quarter_label 19539 = ''q3_2023''"
  by code_simp

lemma normalize_two_filings:
  "normalize_rows two_filings =
     [(19358, ''AAA'', \<lparr>sym_col = Some ''AAA'', cl_col = Str ''COM'', shares_raw = Str ''1,000'',
         value_raw = Str ''7,000''\<rparr>),
      (19448, ''AAA'', \<lparr>sym_col = Some ''AAA'', cl_col = Str ''COM'', shares_raw = Str ''1,500'',
         value_raw = Str ''10,000''\<rparr>),
      (19448, ''BBB'', \<lparr>sym_col = Some ''BBB'', cl_col = Str ''COM'', shares_raw = Str ''2,000'',
         value_raw = Str ''5,000''\<rparr>)]"
  by (simp add: two_filings_def normalize_rows_def with_ticker_def class_text_def List.map_filter_def
      exp_or_unit_def
      upper_char_def)

lemma class_ok_filings:
  "class_error two_filings = None" "class_error three_filings = None"
  "class_error two_classes = None" "class_error two_classes_back = None"
  by (simp_all add: class_error_def with_ticker_def List.map_filter_def str_accessor_def
      is_str_def two_filings_def three_filings_def two_classes_def two_classes_back_def)

lemma two_filings_load: "get_positions float_of_digits 13 two_filings = Inr two_positions"
  unfolding get_positions_def normalize_two_filings class_ok_filings
  by (simp add: two_filings_def two_positions_def astype_float_def str_accessor_def
      is_str_def cell_to_float_def strip_commas_def class_text_def
      float_of_digits_examples float_of_digits_more share_change_def fillna_def
      mk_position_def quarter_label_examples)

lemma normalize_three_filings:
  "normalize_rows three_filings =
     [(19358, ''AAA'', \<lparr>sym_col = Some ''AAA'', cl_col = Str ''COM'', shares_raw = Str ''1,000'',
         value_raw = Str ''7,000''\<rparr>),
      (19358, ''BBB'', \<lparr>sym_col = Some ''BBB'', cl_col = Str ''COM'', shares_raw = Str ''1,100'',
         value_raw = Str ''5,000''\<rparr>),
      (19448, ''BBB'', \<lparr>sym_col = Some ''BBB'', cl_col = Str ''COM'', shares_raw = Str ''1,200'',
         value_raw = Str ''5,000''\<rparr>),
      (19539, ''AAA'', \<lparr>sym_col = Some ''AAA'', cl_col = Str ''COM'', shares_raw = Str ''1,300'',
         value_raw = Str ''10,000''\<rparr>)]"
  by (simp add: three_filings_def normalize_rows_def with_ticker_def class_text_def List.map_filter_def
      exp_or_unit_def
      upper_char_def)

lemma three_filings_load: "get_positions float_of_digits 13 three_filings = Inr three_positions"
  unfolding get_positions_def normalize_three_filings class_ok_filings
  by (simp add: three_filings_def three_positions_def astype_float_def str_accessor_def
      is_str_def cell_to_float_def strip_commas_def class_text_def
      float_of_digits_examples float_of_digits_more share_change_def fillna_def
      mk_position_def quarter_label_examples quarter_label_q3)

lemma normalize_two_classes:
  "normalize_rows two_classes =
     [(19358, ''AAA'', \<lparr>sym_col = Some ''AAA'', cl_col = Str ''COM'', shares_raw = Str ''1,000'',
         value_raw = Str ''7,000''\<rparr>),
      (19448, ''AAA'', \<lparr>sym_col = Some ''AAA'', cl_col = Str ''COM'', shares_raw = Str ''1,500'',
         value_raw = Str ''10,000''\<rparr>),
      (19448, ''AAA'', \<lparr>sym_col = Some ''AAA'', cl_col = Str ''CALL'', shares_raw = Str ''2,000'',
         value_raw = Str ''5,000''\<rparr>)]"
  by (simp add: two_classes_def normalize_rows_def with_ticker_def class_text_def List.map_filter_def
      exp_or_unit_def
      upper_char_def)

lemma two_classes_load:
  "get_positions float_of_digits 13 two_classes = Inr two_classes_positions"
  unfolding get_positions_def normalize_two_classes class_ok_filings
  by (simp add: two_classes_def two_classes_positions_def astype_float_def str_accessor_def
      is_str_def cell_to_float_def strip_commas_def class_text_def
      float_of_digits_examples float_of_digits_more share_change_def fillna_def
      mk_position_def quarter_label_examples)

lemma normalize_two_classes_back:
  "normalize_rows two_classes_back =
     [(19358, ''AAA'', \<lparr>sym_col = Some ''AAA'', cl_col = Str ''COM'', shares_raw = Str ''1,000'',
         value_raw = Str ''7,000''\<rparr>),
      (19358, ''BBB'', \<lparr>sym_col = Some ''BBB'', cl_col = Str ''COM'', shares_raw = Str ''1,100'',
         value_raw = Str ''5,000''\<rparr>),
      (19448, ''BBB'', \<lparr>sym_col = Some ''BBB'', cl_col = Str ''COM'', shares_raw = Str ''1,200'',
         value_raw = Str ''5,000''\<rparr>),
      (19539, ''AAA'', \<lparr>sym_col = Some ''AAA'', cl_col = Str ''COM'', shares_raw = Str ''1,300'',
         value_raw = Str ''10,000''\<rparr>),
      (19539, ''AAA'', \<lparr>sym_col = Some ''AAA'', cl_col = Str ''CALL'', shares_raw = Str ''1,800'',
         value_raw = Str ''5,000''\<rparr>)]"
  by (simp add: two_classes_back_def normalize_rows_def with_ticker_def class_text_def List.map_filter_def
      exp_or_unit_def
      upper_char_def)

lemma two_classes_back_load:
  "get_positions float_of_digits 13 two_classes_back = Inr two_classes_back_positions"
  unfolding get_positions_def normalize_two_classes_back class_ok_filings
  by (simp add: two_classes_back_def two_classes_back_positions_def astype_float_def
      str_accessor_def is_str_def cell_to_float_def strip_commas_def class_text_def
      float_of_digits_examples float_of_digits_more share_change_def fillna_def
      mk_position_def quarter_label_examples quarter_label_q3)







lemma sorted_wrt_remdups: "sorted_wrt P xs \<Longrightarrow> sorted_wrt P (remdups xs)"
  by (induction xs) auto

lemma set_unique [simp]: "set (unique xs) = set xs"
  by (simp add: unique_def)

lemma distinct_unique [simp]: "distinct (unique xs)"
  by (simp add: unique_def)

lemma sorted_unique:
  assumes "sorted xs"
  shows "sorted (unique xs)"
proof -
  from assms have "sorted_wrt (\<lambda>x y. y \<le> x) (rev xs)" by (simp add: sorted_wrt_rev)
  then have "sorted_wrt (\<lambda>x y. y \<le> x) (remdups (rev xs))" by (rule sorted_wrt_remdups)
  then show ?thesis by (simp add: unique_def sorted_wrt_rev)
qed

lemma second_of_sorted:
  fixes ds :: "int list"
  assumes "sorted ds" "distinct ds" "2 \<le> length ds"
  shows "ds ! 1 = Min (set ds - {Min (set ds)})" and "set ds - {Min (set ds)} \<noteq> {}"
proof -
  from assms(3) obtain a b rest where ds: "ds = a # b # rest"
    by (cases ds; cases "tl ds") auto
  from assms(1,2) ds have ab: "a < b" and br: "\<forall>x\<in>set rest. b \<le> x" and ar: "a \<notin> set rest"
    by auto
  have m: "Min (set ds) = a"
    using ab br unfolding ds by (intro Min_eqI) auto
  have s: "set ds - {a} = insert b (set rest)"
    using ab ar unfolding ds by auto
  have "Min (insert b (set rest)) = b"
    using br by (intro Min_eqI) auto
  then show "ds ! 1 = Min (set ds - {Min (set ds)})"
    unfolding m s by (simp add: ds)
  show "set ds - {Min (set ds)} \<noteq> {}" unfolding m s by simp
qed

lemma sorted_dates:
  assumes "sorted (map (\<lambda>p. (date p, ticker p)) ps)"
  shows "sorted (map date ps)"
proof -
  have "sorted (map fst (map (\<lambda>p. (date p, ticker p)) ps))"
    using assms by (intro sorted_map_mono) (auto simp: mono_on_def less_eq_prod_def)
  then show ?thesis by (simp add: comp_def)
qed

lemma price_query_Inl:
  "price_query ps = Inl e \<longleftrightarrow> e = IndexError \<and> card (date ` set ps) < 2"
proof -
  have "length (unique (map date ps)) = card (date ` set ps)"
    using distinct_card [of "unique (map date ps)"] by simp
  then show ?thesis by (auto simp: price_query_def Let_def)
qed



lemma price_query_two_positions:
  "price_query two_positions = Inr ([''AAA'', ''BBB''], 19448, 19539)"
proof -
  have "unique (map date two_positions) = [19358, 19448]"
    by (simp add: two_positions_def unique_def)
  moreover have "unique (map ticker (filter (\<lambda>p. pf_gt0 (change p)) two_positions))
      = [''AAA'', ''BBB'']"
    by (simp add: two_positions_def unique_def pf_gt0_def)
  moreover have "Max (set (map sell_date two_positions)) = 19539"
    by (simp add: two_positions_def)
  ultimately show ?thesis by (simp add: price_query_def)
qed





section \<open>Properties of the composer\<close>

lemma asof_nearest_None: "asof_nearest t obs = None \<longleftrightarrow> obs = []"
proof
  assume n: "asof_nearest t obs = None"
  show "obs = []"
  proof (rule ccontr)
    assume "obs \<noteq> []"
    then obtain d v where dv: "(d, v) \<in> set obs" by (cases obs) auto
    then have "(d, v) \<in> set (filter (\<lambda>(d, v). d \<le> t) obs) \<or> (d, v) \<in> set (filter (\<lambda>(d, v). t \<le> d) obs)"
      by auto
    then have "rev (filter (\<lambda>(d, v). d \<le> t) obs) \<noteq> [] \<or> filter (\<lambda>(d, v). t \<le> d) obs \<noteq> []"
      by (metis empty_iff list.set(1) rev_is_Nil_conv)
    with n show False
      by (auto simp: asof_nearest_def split: list.splits prod.splits if_splits)
  qed
next
  assume "obs = []"
  then show "asof_nearest t obs = None" by (simp add: asof_nearest_def)
qed

lemma last_filter_max:
  assumes "sorted (map fst obs)" and "rev (filter (\<lambda>(d, v). d \<le> t) obs) = (bd, bv) # rest"
  shows "(bd, bv) \<in> set obs \<and> bd \<le> t \<and> (\<forall>(d, v)\<in>set obs. d \<le> t \<longrightarrow> d \<le> bd)"
proof -
  let ?bk = "filter (\<lambda>(d, v). d \<le> t) obs"
  from assms(2) have b: "?bk = rev rest @ [(bd, bv)]"
    by (metis rev.simps(2) rev_rev_ident)
  then have m: "(bd, bv) \<in> set ?bk" by simp
  have "sorted (map fst ?bk)" using assms(1) by (rule sorted_filter)
  then have "\<forall>x\<in>set (rev rest). fst x \<le> bd"
    unfolding b by (auto simp: sorted_append)
  then have "\<forall>x\<in>set ?bk. fst x \<le> bd" unfolding b by auto
  with m show ?thesis by auto
qed

lemma hd_filter_min:
  assumes "sorted (map fst obs)" and "filter (\<lambda>(d, v). t \<le> d) obs = (fd, fv) # rest"
  shows "(fd, fv) \<in> set obs \<and> t \<le> fd \<and> (\<forall>(d, v)\<in>set obs. t \<le> d \<longrightarrow> fd \<le> d)"
proof -
  let ?fwd = "filter (\<lambda>(d, v). t \<le> d) obs"
  from assms(2) have m: "(fd, fv) \<in> set ?fwd" by simp
  have "sorted (map fst ?fwd)" using assms(1) by (rule sorted_filter)
  then have "\<forall>x\<in>set rest. fd \<le> fst x"
    unfolding assms(2) by auto
  then have "\<forall>x\<in>set ?fwd. fd \<le> fst x" unfolding assms(2) by auto
  with m show ?thesis by auto
qed

lemma asof_nearest_Some:
  assumes "sorted (map fst obs)" and "asof_nearest t obs = Some x"
  shows "\<exists>d. (d, x) \<in> set obs \<and>
           (\<forall>(d', x')\<in>set obs. \<bar>d - t\<bar> \<le> \<bar>d' - t\<bar> \<and> (\<bar>d' - t\<bar> = \<bar>d - t\<bar> \<longrightarrow> d \<le> d'))"
proof (cases "rev (filter (\<lambda>(d, v). d \<le> t) obs)")
  case Nil
  then have nb: "\<forall>(d, v)\<in>set obs. \<not> d \<le> t"
    by (auto simp: filter_empty_conv)
  show ?thesis
  proof (cases "filter (\<lambda>(d, v). t \<le> d) obs")
    case Nil
    with \<open>rev (filter (\<lambda>(d, v). d \<le> t) obs) = []\<close> assms(2) show ?thesis
      by (simp add: asof_nearest_def)
  next
    case (Cons f rest)
    obtain fd fv where f: "f = (fd, fv)" by (cases f)
    from hd_filter_min [OF assms(1) Cons [unfolded f]]
    have h: "(fd, fv) \<in> set obs" "t \<le> fd" "\<forall>(d, v)\<in>set obs. t \<le> d \<longrightarrow> fd \<le> d"
      by auto
    from assms(2) Nil Cons f have "x = fv" by (simp add: asof_nearest_def)
    with h nb show ?thesis by (intro exI [of _ fd]) fastforce
  qed
next
  case bc: (Cons b brest)
  obtain bd bv where b: "b = (bd, bv)" by (cases b)
  from last_filter_max [OF assms(1) bc [unfolded b]]
  have hb: "(bd, bv) \<in> set obs" "bd \<le> t" "\<forall>(d, v)\<in>set obs. d \<le> t \<longrightarrow> d \<le> bd"
    by auto
  show ?thesis
  proof (cases "filter (\<lambda>(d, v). t \<le> d) obs")
    case Nil
    then have nf: "\<forall>(d, v)\<in>set obs. \<not> t \<le> d"
      by (auto simp: filter_empty_conv)
    from assms(2) bc Nil b have "x = bv" by (simp add: asof_nearest_def)
    with hb nf show ?thesis by (intro exI [of _ bd]) fastforce
  next
    case (Cons f rest)
    obtain fd fv where f: "f = (fd, fv)" by (cases f)
    from hd_filter_min [OF assms(1) Cons [unfolded f]]
    have hf: "(fd, fv) \<in> set obs" "t \<le> fd" "\<forall>(d, v)\<in>set obs. t \<le> d \<longrightarrow> fd \<le> d"
      by auto
    show ?thesis
    proof (cases "t - bd \<le> fd - t")
      case True
      with assms(2) bc Cons b f have "x = bv" by (simp add: asof_nearest_def)
      with hb hf True show ?thesis by (intro exI [of _ bd]) fastforce
    next
      case False
      with assms(2) bc Cons b f have "x = fv" by (simp add: asof_nearest_def)
      with hb hf False show ?thesis by (intro exI [of _ fd]) fastforce
    qed
  qed
qed

lemma merge_row_fields [simp]:
  "date (merge_row ps pcs p) = date p"
  "ticker (merge_row ps pcs p) = ticker p"
  "sell_date (merge_row ps pcs p) = sell_date p"
  "quarter (merge_row ps pcs p) = quarter p"
  "value_col (merge_row ps pcs p) = value_col p"
  "price_change (merge_row ps pcs p) = matched_change pcs p"
  "weight (merge_row ps pcs p) = pf_div (value_col p) (quarter_total ps (quarter p))"
  "performance (merge_row ps pcs p) =
     pf_mul (matched_change pcs p) (pf_div (value_col p) (quarter_total ps (quarter p)))"
  by (simp_all add: merge_row_def Let_def position.defs)

lemma compose_Inr:
  "compose ps pcs = Inr (portfolio, perf) \<longleftrightarrow>
     sorted (map sell_date ps) \<and> sorted (map pc_sell_date pcs) \<and>
     portfolio = map (merge_row ps pcs) ps \<and>
     perf = first_nan (sort_key (\<lambda>(q, sd, v). sd) (group_sums portfolio))"
  by (auto simp: compose_def Let_def)

lemma pf_mul_NaN [simp]: "pf_mul NaN a = NaN" "pf_mul a NaN = NaN"
  by (cases a; simp)+

lemma sorted_observations:
  "sorted (map pc_sell_date pcs) \<Longrightarrow> sorted (map fst (observations pcs t))"
  unfolding observations_def
  by (simp add: comp_def sorted_filter)

lemma matched_change_cases:
  assumes "sorted (map pc_sell_date pcs)"
  shows "(\<forall>ob\<in>set pcs. pc_ticker ob \<noteq> ticker p) \<and> matched_change pcs p = NaN \<or>
     (\<exists>ob\<in>set pcs. pc_ticker ob = ticker p \<and> matched_change pcs p = pc_price_change ob \<and>
        (\<forall>ob'\<in>set pcs. pc_ticker ob' = ticker p \<longrightarrow>
           \<bar>pc_sell_date ob - sell_date p\<bar> \<le> \<bar>pc_sell_date ob' - sell_date p\<bar> \<and>
           (\<bar>pc_sell_date ob' - sell_date p\<bar> = \<bar>pc_sell_date ob - sell_date p\<bar>
              \<longrightarrow> pc_sell_date ob \<le> pc_sell_date ob')))"
proof (cases "asof_nearest (sell_date p) (observations pcs (ticker p))")
  case None
  then have "observations pcs (ticker p) = []" by (simp add: asof_nearest_None)
  then have "\<forall>ob\<in>set pcs. pc_ticker ob \<noteq> ticker p"
    by (auto simp: observations_def filter_empty_conv)
  with None show ?thesis by (simp add: matched_change_def)
next
  case (Some x)
  from asof_nearest_Some [OF sorted_observations [OF assms] Some]
  obtain d where d: "(d, x) \<in> set (observations pcs (ticker p))"
    and near: "\<forall>(d', x')\<in>set (observations pcs (ticker p)).
       \<bar>d - sell_date p\<bar> \<le> \<bar>d' - sell_date p\<bar> \<and>
       (\<bar>d' - sell_date p\<bar> = \<bar>d - sell_date p\<bar> \<longrightarrow> d \<le> d')"
    by blast
  from d obtain ob where ob: "ob \<in> set pcs" "pc_ticker ob = ticker p" "pc_sell_date ob = d"
    "pc_price_change ob = x"
    by (auto simp: observations_def)
  have "\<bar>pc_sell_date ob - sell_date p\<bar> \<le> \<bar>pc_sell_date ob' - sell_date p\<bar> \<and>
           (\<bar>pc_sell_date ob' - sell_date p\<bar> = \<bar>pc_sell_date ob - sell_date p\<bar>
              \<longrightarrow> pc_sell_date ob \<le> pc_sell_date ob')"
    if "ob' \<in> set pcs" "pc_ticker ob' = ticker p" for ob'
  proof -
    from that have "(pc_sell_date ob', pc_price_change ob') \<in> set (observations pcs (ticker p))"
      by (auto simp: observations_def)
    with near ob(3) show ?thesis by fastforce
  qed
  with ob Some show ?thesis by (auto simp: matched_change_def)
qed

lemma foldl_pf_add_fin:
  "\<forall>a\<in>set xs. a = NaN \<or> is_fin a \<Longrightarrow>
   foldl pf_add (Fin acc) (filter (\<lambda>a. a \<noteq> NaN) xs) = Fin (acc + (\<Sum>a\<leftarrow>xs. fin_val a))"
proof (induction xs arbitrary: acc)
  case Nil
  then show ?case by simp
next
  case (Cons a xs)
  show ?case
  proof (cases a)
    case (Fin x)
    with Cons show ?thesis by (simp add: add.assoc)
  qed (use Cons in \<open>auto simp: is_fin_def\<close>)
qed

lemma sum_skipna_fin:
  "\<forall>a\<in>set xs. a = NaN \<or> is_fin a \<Longrightarrow> sum_skipna xs = Fin (\<Sum>a\<leftarrow>xs. fin_val a)"
  using foldl_pf_add_fin [of xs 0] by (simp add: sum_skipna_def)

lemma sum_skipna_filter:
  assumes "\<And>r. r \<in> set rows \<Longrightarrow> f r \<noteq> NaN \<Longrightarrow> P r"
  shows "sum_skipna (map f (filter P rows)) = sum_skipna (map f rows)"
proof -
  have "filter (\<lambda>a. a \<noteq> NaN) (map f (filter P rows)) = filter (\<lambda>a. a \<noteq> NaN) (map f rows)"
    using assms by (induction rows) auto
  then show ?thesis by (simp add: sum_skipna_def)
qed

lemma set_group_sums:
  "set (group_sums rows) =
     (\<lambda>r. (quarter r, sell_date r,
            sum_skipna (map performance
              (filter (\<lambda>r'. quarter r' = quarter r \<and> sell_date r' = sell_date r) rows))))
       ` set rows"
  by (auto simp: group_sums_def image_iff)

lemma first_nan_props:
  "first_nan rows \<noteq> []"
  "row_return (hd (first_nan rows)) = NaN"
  "rows \<noteq> [] \<Longrightarrow> row_date (hd (first_nan rows)) = Some (fst (snd (hd rows)))"
  "set (tl (first_nan rows)) = (\<lambda>(q, sd, v). Period q sd v) ` set (tl rows)"
  by (cases rows; auto simp: first_nan_def split: prod.splits)+

lemma hd_sort_key_Min:
  fixes f :: "'a \<Rightarrow> int"
  assumes "xs \<noteq> []"
  shows "f (hd (sort_key f xs)) = Min (f ` set xs)"
proof -
  let ?ys = "sort_key f xs"
  from assms have ne: "?ys \<noteq> []" by (metis length_0_conv length_sort)
  then obtain y rest where ys: "?ys = y # rest" by (cases ?ys) auto
  have "sorted (map f ?ys)" by (rule sorted_sort_key)
  then have "\<forall>z\<in>set ?ys. f y \<le> f z" unfolding ys by auto
  then have le: "\<forall>z\<in>set xs. f y \<le> f z" by simp
  have "y \<in> set ?ys" unfolding ys by simp
  then have mem: "y \<in> set xs" by simp
  have "Min (f ` set xs) = f y"
    using le mem by (intro Min_eqI) auto
  then show ?thesis by (simp add: ys)
qed

lemma map_of_dict_set: "map_of (dict_set kvs k v) k = Some v"
  by (induction kvs k v rule: dict_set.induct) auto

lemma map_of_dict_set_other: "k' \<noteq> k \<Longrightarrow> map_of (dict_set kvs k v) k' = map_of kvs k'"
  by (induction kvs k v rule: dict_set.induct) auto

lemma compose_first_row:
  assumes "compose ps pcs = Inr (portfolio, perf)"
  shows "perf \<noteq> []" and "row_return (hd perf) = NaN"
    and "ps \<noteq> [] \<Longrightarrow> row_date (hd perf) = Some (Min (sell_date ` set ps))"
proof -
  let ?k = "\<lambda>(q :: string, sd :: int, v :: pyfloat). sd"
  from assms have pf: "portfolio = map (merge_row ps pcs) ps"
    and perf: "perf = first_nan (sort_key ?k (group_sums portfolio))"
    by (simp_all add: compose_Inr)
  show "perf \<noteq> []" "row_return (hd perf) = NaN"
    unfolding perf by (rule first_nan_props)+
  assume ne: "ps \<noteq> []"
  then have "set (group_sums portfolio) \<noteq> {}" by (simp add: set_group_sums pf)
  then have g: "group_sums portfolio \<noteq> []" by auto
  then have s: "sort_key ?k (group_sums portfolio) \<noteq> []"
    by (metis length_0_conv length_sort)
  have "?k ` set (group_sums portfolio) = sell_date ` set ps"
    by (auto simp: set_group_sums pf image_iff)
  with hd_sort_key_Min [OF g, of ?k]
  have "?k (hd (sort_key ?k (group_sums portfolio))) = Min (sell_date ` set ps)" by simp
  with first_nan_props(3) [OF s] show "row_date (hd perf) = Some (Min (sell_date ` set ps))"
    unfolding perf by (simp add: split_beta)
qed

text \<open>
  C6. After \<open>create_portfolio\<close>, whatever the approach is called, the performance table
  stored under its name has a first row, the return of that row is undefined, and when
  there are positions that row is the period of the earliest sell date.
\<close>

theorem first_period_undefined:
  assumes "create_portfolio self approach = Inr self'"
  shows "\<exists>perf. map_of (performances self') approach = Some perf \<and> perf \<noteq> [] \<and>
    row_return (hd perf) = NaN \<and>
    (positions self \<noteq> [] \<longrightarrow>
       row_date (hd perf) = Some (Min (sell_date ` set (positions self))))"
proof -
  from assms obtain portfolio perf where
    c: "compose (positions self) (self_price_change self) = Inr (portfolio, perf)" and
    s: "self' = self\<lparr>portfolios := dict_set (portfolios self) approach portfolio,
                    performances := dict_set (performances self) approach perf\<rparr>"
    by (auto simp: create_portfolio_def split: sum.splits)
  have "map_of (performances self') approach = Some perf"
    by (simp add: s map_of_dict_set)
  with compose_first_row [OF c] show ?thesis by blast
qed

lemma example_merge:
  "map (merge_row two_positions example_returns) two_positions = example_portfolio"
  "map (merge_row two_positions returns_without_bbb) two_positions = portfolio_without_bbb"
  by (simp_all add: merge_row_def matched_change_def asof_nearest_def observations_def
      quarter_total_def sum_skipna_def two_positions_def example_returns_def
      returns_without_bbb_def example_portfolio_def portfolio_without_bbb_def
      position.defs Let_def)

lemma example_group_sums:
  "group_sums example_portfolio = [(''q1_2023'', 19449, Fin 3), (''q2_2023'', 19539, Fin 8)]"
  "group_sums portfolio_without_bbb = [(''q1_2023'', 19449, Fin 3), (''q2_2023'', 19539, Fin 4)]"
  by (simp_all add: group_sums_def example_portfolio_def portfolio_without_bbb_def sum_skipna_def)

lemma example_sorted:
  "sorted (map sell_date two_positions)" "sorted (map pc_sell_date example_returns)"
  "sorted (map pc_sell_date returns_without_bbb)"
  by (simp_all add: two_positions_def example_returns_def returns_without_bbb_def)

lemma compose_example:
  "compose two_positions example_returns = Inr (example_portfolio, example_performance)"
  by (simp add: compose_def example_sorted example_merge example_group_sums first_nan_def
      example_performance_def)

lemma compose_without_bbb:
  "compose two_positions returns_without_bbb =
     Inr (portfolio_without_bbb, [Period ''q1_2023'' 19449 NaN, Period ''q2_2023'' 19539 (Fin 4)])"
  by (simp add: compose_def example_sorted example_merge example_group_sums first_nan_def)

lemma create_portfolio_example:
  "create_portfolio example_fund ''simple'' = Inr example_composed"
  by (simp add: create_portfolio_def example_fund_def compose_example example_composed_def)

theorem first_period_undefined_witness:
  "create_portfolio example_fund ''simple'' = Inr example_composed \<and>
   positions example_fund \<noteq> [] \<and>
   (\<exists>perf. map_of (performances example_composed) ''simple'' = Some perf \<and>
      row_return (hd perf) = NaN \<and> row_date (hd perf) = Some 19449)"
proof -
  have p: "positions example_fund \<noteq> []"
    and m: "Min (sell_date ` set (positions example_fund)) = 19449"
    by (simp_all add: example_fund_def two_positions_def)
  from first_period_undefined [OF create_portfolio_example] p m create_portfolio_example
  show ?thesis by auto
qed

lemma sum_list_divide:
  fixes f :: "'a \<Rightarrow> real"
  shows "(\<Sum>x\<leftarrow>xs. f x / t) = (\<Sum>x\<leftarrow>xs. f x) / t"
  by (induction xs) (simp_all add: add_divide_distrib)

lemma compose_zero:
  "compose zero_positions example_returns =
     Inr (zero_portfolio, [Period ''q1_2023'' 19449 NaN])"
proof -
  have "map (merge_row zero_positions example_returns) zero_positions = zero_portfolio"
    by (simp add: merge_row_def matched_change_def asof_nearest_def observations_def
      quarter_total_def sum_skipna_def zero_positions_def example_returns_def
      zero_portfolio_def position.defs Let_def)
  moreover have "group_sums zero_portfolio = [(''q1_2023'', 19449, Fin 0)]"
    by (simp add: group_sums_def zero_portfolio_def sum_skipna_def)
  moreover have "sorted (map sell_date zero_positions)"
    by (simp add: zero_positions_def)
  ultimately show ?thesis
    by (simp add: compose_def example_sorted first_nan_def)
qed

text \<open>
  C3. Disclosed values being numbers that are not negative (or missing), the weight of a
  row is its value divided by the sum of the values of all the rows of its quarter,
  whether or not they get a return observation; when that sum is not 0 the weights of
  the quarter add up to 1, and when it is 0 every weight of the quarter is undefined.
\<close>

theorem period_weights:
  fixes q :: string
  assumes "compose ps pcs = Inr (portfolio, perf)"
    and "\<forall>p\<in>set ps. value_col p = NaN \<or> (\<exists>v\<ge>0. value_col p = Fin v)"
  defines "tot \<equiv> (\<Sum>p\<leftarrow>filter (\<lambda>p. quarter p = q) ps. fin_val (value_col p))"
  shows "(tot \<noteq> 0 \<longrightarrow>
            (\<forall>r\<in>set portfolio. quarter r = q \<longrightarrow> weight r = pf_div (value_col r) (Fin tot)) \<and>
            sum_skipna (map weight (filter (\<lambda>r. quarter r = q) portfolio)) = Fin 1) \<and>
         (tot = 0 \<longrightarrow> (\<forall>r\<in>set portfolio. quarter r = q \<longrightarrow> weight r = NaN))"
proof -
  let ?qs = "filter (\<lambda>p. quarter p = q) ps"
  from assms(1) have pf: "portfolio = map (merge_row ps pcs) ps"
    by (simp add: compose_Inr)
  have vals: "\<forall>a\<in>set (map value_col ?qs). a = NaN \<or> is_fin a"
    using assms(2) by (auto simp: is_fin_def)
  have qt: "quarter_total ps q = Fin tot"
    unfolding quarter_total_def tot_def
    using sum_skipna_fin [OF vals] by (simp add: comp_def)
  have w: "weight r = pf_div (value_col r) (Fin tot)"
    if "r \<in> set portfolio" "quarter r = q" for r
    using that qt by (auto simp: pf)
  have "map weight (filter (\<lambda>r. quarter r = q) (map (merge_row ps pcs) xs))
      = map (\<lambda>p. pf_div (value_col p) (Fin tot)) (filter (\<lambda>p. quarter p = q) xs)" for xs
    by (induction xs) (auto simp: qt)
  then have rows: "map weight (filter (\<lambda>r. quarter r = q) portfolio)
      = map (\<lambda>p. pf_div (value_col p) (Fin tot)) ?qs"
    unfolding pf .
  show ?thesis
  proof (intro conjI impI)
    show "\<forall>r\<in>set portfolio. quarter r = q \<longrightarrow> weight r = pf_div (value_col r) (Fin tot)"
      using w by blast
  next
    assume nz: "tot \<noteq> 0"
    have d: "pf_div (value_col p) (Fin tot) = NaN \<or> is_fin (pf_div (value_col p) (Fin tot))"
      and f: "fin_val (pf_div (value_col p) (Fin tot)) = fin_val (value_col p) / tot"
      if "p \<in> set ps" for p
      using assms(2) that nz by (auto simp: is_fin_def)
    have "sum_skipna (map (\<lambda>p. pf_div (value_col p) (Fin tot)) ?qs)
        = Fin (\<Sum>p\<leftarrow>?qs. fin_val (pf_div (value_col p) (Fin tot)))"
      using d by (subst sum_skipna_fin) (auto simp: comp_def)
    also have "(\<Sum>p\<leftarrow>?qs. fin_val (pf_div (value_col p) (Fin tot)))
        = (\<Sum>p\<leftarrow>?qs. fin_val (value_col p) / tot)"
      using f by (intro arg_cong [of _ _ sum_list] map_cong) auto
    also have "\<dots> = tot / tot" unfolding sum_list_divide tot_def ..
    finally show "sum_skipna (map weight (filter (\<lambda>r. quarter r = q) portfolio)) = Fin 1"
      using nz by (simp add: rows)
  next
    assume z: "tot = 0"
    have nonneg: "\<And>x. x \<in> set (map (\<lambda>p. fin_val (value_col p)) ?qs) \<Longrightarrow> 0 \<le> x"
      using assms(2) by auto
    from z have "\<forall>x\<in>set (map (\<lambda>p. fin_val (value_col p)) ?qs). x = 0"
      unfolding tot_def using sum_list_nonneg_eq_0_iff [OF nonneg] by blast
    then have zero: "fin_val (value_col p) = 0" if "p \<in> set ps" "quarter p = q" for p
      using that by auto
    show "\<forall>r\<in>set portfolio. quarter r = q \<longrightarrow> weight r = NaN"
    proof (intro ballI impI)
      fix r assume r: "r \<in> set portfolio" "quarter r = q"
      then obtain p where p: "p \<in> set ps" "r = merge_row ps pcs p" by (auto simp: pf)
      with r have "quarter p = q" by simp
      from zero [OF p(1) this] assms(2) p(1)
      have "value_col p = NaN \<or> value_col p = Fin 0" by fastforce
      then show "weight r = NaN"
        using w [OF r] z p(2) by auto
    qed
  qed
qed

theorem period_weights_witness:
  "compose two_positions example_returns = Inr (example_portfolio, example_performance) \<and>
   (\<Sum>p\<leftarrow>filter (\<lambda>p. quarter p = ''q2_2023'') two_positions. fin_val (value_col p)) = 15000000 \<and>
   sum_skipna (map weight (filter (\<lambda>r. quarter r = ''q2_2023'') example_portfolio)) = Fin 1 \<and>
   weight (example_portfolio ! 1) = pf_div (Fin 10000000) (Fin 15000000) \<and>
   compose zero_positions example_returns = Inr (zero_portfolio, [Period ''q1_2023'' 19449 NaN]) \<and>
   (\<Sum>p\<leftarrow>filter (\<lambda>p. quarter p = ''q1_2023'') zero_positions. fin_val (value_col p)) = 0 \<and>
   weight (zero_portfolio ! 0) = NaN"
proof -
  have v: "\<forall>p\<in>set two_positions. value_col p = NaN \<or> (\<exists>v\<ge>0. value_col p = Fin v)"
    by (simp add: two_positions_def)
  have t: "(\<Sum>p\<leftarrow>filter (\<lambda>p. quarter p = ''q2_2023'') two_positions. fin_val (value_col p)) = 15000000"
    by (simp add: two_positions_def)
  have r: "example_portfolio ! 1 \<in> set example_portfolio"
    "quarter (example_portfolio ! 1) = ''q2_2023''"
    "value_col (example_portfolio ! 1) = Fin 10000000"
    by (simp_all add: example_portfolio_def)
  have vz: "\<forall>p\<in>set zero_positions. value_col p = NaN \<or> (\<exists>v\<ge>0. value_col p = Fin v)"
    by (simp add: zero_positions_def)
  have tz: "(\<Sum>p\<leftarrow>filter (\<lambda>p. quarter p = ''q1_2023'') zero_positions. fin_val (value_col p)) = 0"
    by (simp add: zero_positions_def)
  have rz: "zero_portfolio ! 0 \<in> set zero_portfolio" "quarter (zero_portfolio ! 0) = ''q1_2023''"
    by (simp_all add: zero_portfolio_def)
  from period_weights [OF compose_example v, of "''q2_2023''"] t r
  have a: "sum_skipna (map weight (filter (\<lambda>r. quarter r = ''q2_2023'') example_portfolio)) = Fin 1"
    and b: "weight (example_portfolio ! 1) = pf_div (Fin 10000000) (Fin 15000000)"
    by auto
  from period_weights [OF compose_zero vz, of "''q1_2023''"] tz rz
  have c: "weight (zero_portfolio ! 0) = NaN" by auto
  from a b c t tz compose_example compose_zero show ?thesis by blast
qed

lemma performance_NaN:
  assumes "r \<in> set (map (merge_row ps pcs) ps)"
  shows "performance r = pf_mul (price_change r) (weight r)"
  using assms by auto

lemma tied_merge:
  "map (merge_row two_positions tied_returns) two_positions = portfolio_without_bbb"
  by (simp add: merge_row_def matched_change_def asof_nearest_def observations_def
      quarter_total_def sum_skipna_def two_positions_def tied_returns_def
      portfolio_without_bbb_def position.defs Let_def)

lemma compose_tied:
  "compose two_positions tied_returns =
     Inr (portfolio_without_bbb, [Period ''q1_2023'' 19449 NaN, Period ''q2_2023'' 19539 (Fin 4)])"
proof -
  have "sorted (map pc_sell_date tied_returns)" by (simp add: tied_returns_def)
  then show ?thesis
    by (simp add: compose_def example_sorted tied_merge example_group_sums first_nan_def)
qed




section \<open>Properties of the comparator\<close>

lemma length_cumprod_from [simp]: "length (cumprod_from acc xs) = length xs"
  by (induction acc xs rule: cumprod_from.induct) auto

lemma cumprod_from_fin:
  "i < length fs \<Longrightarrow>
   cumprod_from (Fin a) (map Fin fs) ! i = Fin (a * prod_list (take (Suc i) fs))"
proof (induction fs arbitrary: a i)
  case Nil
  then show ?case by simp
next
  case (Cons f fs)
  show ?case
  proof (cases i)
    case 0
    then show ?thesis by simp
  next
    case (Suc j)
    with Cons.prems have "j < length fs" by simp
    from Cons.IH [OF this, of "a * f"] Suc show ?thesis by (simp add: mult.assoc)
  qed
qed

lemma growth_column_nth:
  assumes "\<forall>a\<in>set xs. a = NaN \<or> is_fin a" and "i < length xs"
  shows "growth_column P (map (fillna (Fin 0)) xs) ! i =
           Fin (P * (\<Prod>x\<leftarrow>take (Suc i) xs. 1 + fin_val x / 100))"
proof -
  have "map (\<lambda>x. pf_add (pf_div x (Fin 100)) (Fin 1)) (map (fillna (Fin 0)) xs)
      = map Fin (map (\<lambda>x. 1 + fin_val x / 100) xs)"
    using assms(1) by (induction xs) (auto simp: fillna_def is_fin_def split: pyfloat.splits)
  then have "growth_column P (map (fillna (Fin 0)) xs)
      = map (\<lambda>x. pf_mul x (Fin P))
          (cumprod_from (Fin 1) (map Fin (map (\<lambda>x. 1 + fin_val x / 100) xs)))"
    unfolding growth_column_def cumprod_def by (rule arg_cong)
  then have "growth_column P (map (fillna (Fin 0)) xs) ! i
      = pf_mul (cumprod_from (Fin 1) (map Fin (map (\<lambda>x. 1 + fin_val x / 100) xs)) ! i) (Fin P)"
    using assms(2) by simp
  also have "\<dots> = pf_mul (Fin (1 * prod_list (take (Suc i) (map (\<lambda>x. 1 + fin_val x / 100) xs)))) (Fin P)"
    using assms(2) by (subst cumprod_from_fin) simp_all
  finally show ?thesis by (simp add: take_map mult.commute)
qed

lemma length_growth_column [simp]: "length (growth_column P xs) = length xs"
  by (simp add: growth_column_def cumprod_def)

text \<open>
  C5. In the growth table, every column other than \<open>quarter\<close>, \<open>sell_date\<close> and
  \<open>outperformance\<close>, the benchmark's among them, holds for each period the principal times
  the product of the factors 1 + r/100 up to that period, an undefined return counting
  as 0 percent, rounded to 2 decimals.
\<close>

theorem growth_projection:
  assumes "k < length (cmp_columns c)" and "cmp_columns c ! k = (name, xs)"
    and "name \<notin> {''quarter'', ''sell_date'', ''outperformance''}"
    and "\<forall>a\<in>set xs. a = NaN \<or> is_fin a"
    and "i < length xs"
  shows "\<exists>ys. cmp_columns (growth_table P c) ! k = (name, ys) \<and> length ys = length xs \<and>
           ys ! i = round2 (Fin (P * (\<Prod>x\<leftarrow>take (Suc i) xs. 1 + fin_val x / 100)))"
proof -
  let ?ys = "map round2 (growth_column P (map (fillna (Fin 0)) xs))"
  have "cmp_columns (growth_table P c) ! k = (name, ?ys)"
    using assms(1,2,3) by (simp add: growth_table_def Let_def)
  moreover have "length ?ys = length xs" by simp
  moreover have "?ys ! i = round2 (Fin (P * (\<Prod>x\<leftarrow>take (Suc i) xs. 1 + fin_val x / 100)))"
    using assms(5) growth_column_nth [OF assms(4,5), of P] by simp
  ultimately show ?thesis by blast
qed

lemma rint_examples: "rint 1000000 = 1000000" "rint 1050000 = 1050000"
  by (simp_all add: rint_def)

theorem growth_projection_witness:
  "cmp_columns undefined_then_five ! 0 = (''performance'', [NaN, Fin 5]) \<and>
   cmp_columns (growth_table 10000 undefined_then_five) ! 0
     = (''performance'', [Fin 10000, Fin 10500])"
proof -
  have c: "0 < length (cmp_columns undefined_then_five)"
    "cmp_columns undefined_then_five ! 0 = (''performance'', [NaN, Fin 5])"
    "''performance'' \<notin> {''quarter'', ''sell_date'', ''outperformance''}"
    "\<forall>a\<in>set [NaN, Fin 5]. a = NaN \<or> is_fin a"
    by (simp_all add: undefined_then_five_def is_fin_def)
  from growth_projection [OF c, of 0 10000] obtain ys where
    y: "cmp_columns (growth_table 10000 undefined_then_five) ! 0 = (''performance'', ys)"
      "length ys = 2" and y0: "ys ! 0 = Fin 10000"
    by (auto simp: rint_examples)
  from growth_projection [OF c, of 1 10000] y(1) have y1: "ys ! 1 = Fin 10500"
    by (auto simp: rint_examples)
  from y(2) y0 y1 have "ys = [Fin 10000, Fin 10500]"
    by (cases ys; cases "tl ys") auto
  with y(1) c(2) show ?thesis by simp
qed

lemma rint_of_int [simp]: "rint (of_int n) = n"
  by (simp add: rint_def)

lemma round2_idem [simp]: "round2 (round2 x) = round2 x"
  by (cases x) simp_all

lemma sort_by_sell_date_id:
  assumes "sorted (cmp_sell_date c)"
    and "\<forall>(name, xs)\<in>set (cmp_columns c). length xs = length (cmp_sell_date c)"
    and "\<forall>qs. cmp_quarter c = Some qs \<longrightarrow> length qs = length (cmp_sell_date c)"
  shows "sort_by_sell_date c = c"
proof -
  let ?n = "length (cmp_sell_date c)"
  have "sorted (map (\<lambda>i. cmp_sell_date c ! i) [0..<?n])"
    using assms(1) by (simp add: map_nth)
  then have o: "sort_key (\<lambda>i. cmp_sell_date c ! i) [0..<?n] = [0..<?n]"
    by (rule sort_key_id_if_sorted)
  have q: "map_option (\<lambda>qs. map (\<lambda>i. qs ! i) [0..<?n]) (cmp_quarter c) = cmp_quarter c"
  proof (cases "cmp_quarter c")
    case None
    then show ?thesis by simp
  next
    case (Some qs)
    with assms(3) have "length qs = ?n" by simp
    then have "map (\<lambda>i. qs ! i) [0..<?n] = qs" by (metis map_nth)
    with Some show ?thesis by simp
  qed
  have "map (\<lambda>(name, xs). (name, map (\<lambda>i. xs ! i) [0..<?n])) (cmp_columns c) = map id (cmp_columns c)"
  proof (rule map_cong [OF refl])
    fix col assume m: "col \<in> set (cmp_columns c)"
    obtain name xs where col: "col = (name, xs)" by (cases col)
    with m assms(2) have "length xs = ?n" by auto
    then have "map (\<lambda>i. xs ! i) [0..<?n] = xs" by (metis map_nth)
    with col show "(case col of (name, xs) \<Rightarrow> (name, map (\<lambda>i. xs ! i) [0..<?n])) = id col"
      by simp
  qed
  then have cs: "map (\<lambda>(name, xs). (name, map (\<lambda>i. xs ! i) [0..<?n])) (cmp_columns c) = cmp_columns c"
    by simp
  show ?thesis
    unfolding sort_by_sell_date_def Let_def o q cs by (simp add: map_nth)
qed


lemma period_rows_Some:
  "period_rows t = Some rows \<Longrightarrow>
     map row_return t = map (\<lambda>(q, sd, v). v) rows \<and> length rows = length t"
  by (induction t arbitrary: rows rule: period_rows.induct) auto

lemma those_map_Some:
  "those (map f xs) = Some ys \<Longrightarrow> length ys = length xs \<and> (\<forall>i<length xs. f (xs ! i) = Some (ys ! i))"
proof (induction xs arbitrary: ys)
  case Nil
  then show ?case by simp
next
  case (Cons x xs)
  then show ?case by (auto split: option.splits simp: nth_Cons split: nat.splits)
qed

lemma tables_of:
  assumes "those (map (\<lambda>(a, t). map_option (Pair a) (period_rows t)) perfs) = Some tables"
  shows "map fst tables = map fst perfs"
    and "\<forall>i<length perfs. period_rows (snd (perfs ! i)) = Some (snd (tables ! i))"
proof -
  from those_map_Some [OF assms] have l: "length tables = length perfs"
    and n: "\<forall>i<length perfs.
      (case perfs ! i of (a, t) \<Rightarrow> map_option (Pair a) (period_rows t)) = Some (tables ! i)"
    by auto
  show "map fst tables = map fst perfs"
  proof (rule nth_equalityI)
    show "length (map fst tables) = length (map fst perfs)" using l by simp
    fix i assume "i < length (map fst tables)"
    then have i: "i < length perfs" using l by simp
    obtain a t where p: "perfs ! i = (a, t)" by (cases "perfs ! i")
    with n i have "map_option (Pair a) (period_rows t) = Some (tables ! i)" by fastforce
    then obtain z where "tables ! i = (a, z)" by (metis map_option_eq_Some)
    then have "fst (tables ! i) = a" by simp
    with i l p show "map fst tables ! i = map fst perfs ! i" by simp
  qed
  show "\<forall>i<length perfs. period_rows (snd (perfs ! i)) = Some (snd (tables ! i))"
  proof (intro allI impI)
    fix i assume i: "i < length perfs"
    obtain a t where p: "perfs ! i = (a, t)" by (cases "perfs ! i")
    with n i have "map_option (Pair a) (period_rows t) = Some (tables ! i)" by fastforce
    then obtain z where "period_rows t = Some z" "tables ! i = (a, z)"
      by (metis map_option_eq_Some)
    with p show "period_rows (snd (perfs ! i)) = Some (snd (tables ! i))" by simp
  qed
qed

lemma combine_lengths:
  assumes "combine tables = Inr c"
  shows "\<forall>(name, xs)\<in>set (cmp_columns c). length xs = length (cmp_sell_date c)"
    and "\<forall>qs. cmp_quarter c = Some qs \<longrightarrow> length qs = length (cmp_sell_date c)"
  using assms
  by (auto simp: combine_def Let_def split: if_splits list.splits prod.splits)

lemma set_dict_set: "set (dict_set kvs k v) \<subseteq> insert (k, v) (set kvs)"
  by (induction kvs k v rule: dict_set.induct) (auto split: if_splits)

lemma merge_benchmark_lengths:
  assumes "merge_benchmark cols voo = Inr cols'"
    and "\<forall>(name, xs)\<in>set cols. length xs = n" and "length voo = n"
  shows "\<forall>(name, xs)\<in>set cols'. length xs = n"
  using assms by (auto simp: merge_benchmark_def split: if_splits)

lemma with_benchmark_lengths:
  assumes "with_benchmark c sp = Inr cols"
    and "\<forall>(name, xs)\<in>set (cmp_columns c). length xs = length (cmp_sell_date c)"
  shows "\<forall>(name, xs)\<in>set cols. length xs = length (cmp_sell_date c)"
proof -
  let ?n = "length (cmp_sell_date c)"
  have v: "length (benchmark_column sp (cmp_sell_date c)) = ?n"
    by (simp add: benchmark_column_def)
  from assms(1) obtain cols0 where
    m: "merge_benchmark (cmp_columns c) (benchmark_column sp (cmp_sell_date c)) = Inr cols0"
    by (auto simp: with_benchmark_def split: sum.splits)
  note l0 = merge_benchmark_lengths [OF m assms(2) v]
  show ?thesis
  proof (cases "map_of cols0 ''performance''")
    case None
    with assms(1) m have "cols = cols0" by (simp add: with_benchmark_def)
    with l0 show ?thesis by simp
  next
    case (Some p)
    with assms(1) m obtain b where b: "map_of cols0 ''VOO'' = Some b"
      and cols: "cols = dict_set cols0 ''outperformance'' (map2 pf_sub p b)"
      by (auto simp: with_benchmark_def split: option.splits)
    from Some have "(''performance'', p) \<in> set cols0" by (rule map_of_SomeD)
    with l0 have lp: "length p = ?n" by auto
    from b have "(''VOO'', b) \<in> set cols0" by (rule map_of_SomeD)
    with l0 have lb: "length b = ?n" by auto
    show ?thesis
      unfolding cols using set_dict_set [of cols0 "''outperformance''" "map2 pf_sub p b"] l0 lp lb
      by auto
  qed
qed

lemma compare_Inr:
  assumes "compare perfs sp = Inr c"
  shows "\<exists>tables c0 cols.
     those (map (\<lambda>(a, t). map_option (Pair a) (period_rows t)) perfs) = Some tables \<and>
     combine tables = Inr c0 \<and> sorted (cmp_sell_date c0) \<and> sorted (map fst sp) \<and>
     with_benchmark c0 sp = Inr cols \<and>
     c = c0\<lparr>cmp_columns := map (\<lambda>(name, xs). (name, map round2 xs)) cols\<rparr>"
proof -
  from assms obtain tables c0 cols where
    t: "those (map (\<lambda>(a, t). map_option (Pair a) (period_rows t)) perfs) = Some tables" and
    c0: "combine tables = Inr c0" and s: "sorted (cmp_sell_date c0)" "sorted (map fst sp)" and
    w: "with_benchmark c0 sp = Inr cols" and
    c: "c = sort_by_sell_date
          (c0\<lparr>cmp_columns := map (\<lambda>(name, xs). (name, map round2 xs)) cols\<rparr>)"
    by (auto simp: compare_def split: option.splits sum.splits if_splits)
  let ?c1 = "c0\<lparr>cmp_columns := map (\<lambda>(name, xs). (name, map round2 xs)) cols\<rparr>"
  have "sort_by_sell_date ?c1 = ?c1"
  proof (rule sort_by_sell_date_id)
    show "sorted (cmp_sell_date ?c1)" using s(1) by simp
    show "\<forall>(name, xs)\<in>set (cmp_columns ?c1). length xs = length (cmp_sell_date ?c1)"
      using with_benchmark_lengths [OF w combine_lengths(1) [OF c0]] by auto
    show "\<forall>qs. cmp_quarter ?c1 = Some qs \<longrightarrow> length qs = length (cmp_sell_date ?c1)"
      using combine_lengths(2) [OF c0] by simp
  qed
  with t c0 s w c show ?thesis by auto
qed

lemma example_benchmark:
  "benchmark_column (sp500_change example_fund) [19449, 19539] = [Fin 1, Fin (1003 / 500)]"
  by (simp add: benchmark_column_def asof_nearest_def example_fund_def)

lemma rint_values:
  "rint 800 = 800" "rint 100 = 100" "rint (1003 / 5) = 201" "rint (2997 / 5) = 599"
  by (simp_all add: rint_def)

lemma pf_sub_NaN [simp]: "pf_sub NaN a = NaN" "pf_sub a NaN = NaN"
  by (cases a; simp add: pf_sub_def)+

lemma sort_two: "sort_key (\<lambda>i. [19449, 19539 :: int] ! i) [0..<2] = [0, 1]"
  by code_simp

lemma compare_example:
  "compare [(''simple'', example_performance)] (sp500_change example_fund) = Inr example_comparison"
  by (simp add: compare_def example_performance_def combine_def with_benchmark_def
      merge_benchmark_def example_benchmark rint_values sort_by_sell_date_def sort_two
      example_comparison_def)
    (simp add: example_fund_def)

lemma compare_performance_simple:
  "compare [(''performance'', example_performance), (''simple'', example_performance)]
     (sp500_change example_fund) = Inr comparison_performance_simple"
  by (simp add: compare_def example_performance_def combine_def with_benchmark_def
      merge_benchmark_def example_benchmark rint_values sort_by_sell_date_def sort_two
      comparison_performance_simple_def)
    (simp add: example_fund_def)


lemma calculate_returns_Inr:
  assumes "calculate_returns self = Inr self'"
  shows "\<exists>c. compare (performances self') (sp500_change self') = Inr c \<and>
           comparison self' = Some c"
proof (cases "performances self = []")
  case True
  with assms obtain self1 c where
    "create_portfolio self ''simple'' = Inr self1"
    "compare (performances self1) (sp500_change self1) = Inr c"
    "self' = self1\<lparr>comparison := Some c\<rparr>"
    by (auto simp: calculate_returns_def split: sum.splits)
  then show ?thesis by simp
next
  case False
  with assms obtain c where
    "compare (performances self) (sp500_change self) = Inr c"
    "self' = self\<lparr>comparison := Some c\<rparr>"
    by (auto simp: calculate_returns_def split: sum.splits)
  then show ?thesis by simp
qed

lemma compare_single:
  assumes "compare [(a, t)] sp = Inr c"
  shows "cmp_columns c =
     [(''performance'', map round2 (map row_return t)),
      (''VOO'', map round2 (benchmark_column sp (cmp_sell_date c))),
      (''outperformance'',
       map2 (\<lambda>p b. round2 (pf_sub p b)) (map row_return t)
         (benchmark_column sp (cmp_sell_date c)))]"
proof -
  from compare_Inr [OF assms] obtain tables c0 cols where
    t: "those (map (\<lambda>(a, t). map_option (Pair a) (period_rows t)) [(a, t)]) = Some tables" and
    c0: "combine tables = Inr c0" and
    w: "with_benchmark c0 sp = Inr cols" and
    c: "c = c0\<lparr>cmp_columns := map (\<lambda>(name, xs). (name, map round2 xs)) cols\<rparr>"
    by blast
  from t obtain rows where rows: "period_rows t = Some rows" and tables: "tables = [(a, rows)]"
    by (auto split: option.splits)
  from period_rows_Some [OF rows] have r: "map (\<lambda>(q, sd, v). v) rows = map row_return t"
    by simp
  from c0 have cols0: "cmp_columns c0 = [(''performance'', map row_return t)]"
    by (auto simp: combine_def tables r)
  have "with_benchmark c0 sp =
      Inr [(''performance'', map row_return t),
       (''VOO'', benchmark_column sp (cmp_sell_date c0)),
       (''outperformance'', map2 pf_sub (map row_return t) (benchmark_column sp (cmp_sell_date c0)))]"
    by (simp add: with_benchmark_def merge_benchmark_def cols0)
  with w have "cols =
      [(''performance'', map row_return t),
       (''VOO'', benchmark_column sp (cmp_sell_date c0)),
       (''outperformance'', map2 pf_sub (map row_return t) (benchmark_column sp (cmp_sell_date c0)))]"
    by simp
  then show ?thesis
    unfolding c by (simp add: map_zip_map split_beta zip_map_map)
qed

lemma compare_sorted_rounded:
  assumes "compare perfs sp = Inr c"
  shows "sorted (cmp_sell_date c)"
    and "\<forall>(name, xs)\<in>set (cmp_columns c). \<forall>x\<in>set xs. round2 x = x"
  using compare_Inr [OF assms] by auto

lemma compare_momentum_simple:
  "compare [(''momentum'', example_performance), (''simple'', example_performance)]
     (sp500_change example_fund) = Inr comparison_momentum_simple"
  by (simp add: compare_def example_performance_def combine_def with_benchmark_def
      merge_benchmark_def example_benchmark rint_values sort_by_sell_date_def sort_two
      comparison_momentum_simple_def)
    (simp add: example_fund_def)

lemma calculate_returns_example:
  "calculate_returns example_fund = Inr (example_composed\<lparr>comparison := Some example_comparison\<rparr>)"
proof -
  have "performances example_fund = []" by (simp add: example_fund_def)
  moreover have "performances example_composed = [(''simple'', example_performance)]"
    "sp500_change example_composed = sp500_change example_fund"
    by (simp_all add: example_composed_def)
  ultimately show ?thesis
    by (simp add: calculate_returns_def create_portfolio_example compare_example)
qed

lemma calculate_returns_momentum_simple:
  "calculate_returns fund_momentum_simple
     = Inr (fund_momentum_simple\<lparr>comparison := Some comparison_momentum_simple\<rparr>)"
proof -
  have "performances fund_momentum_simple
      = [(''momentum'', example_performance), (''simple'', example_performance)]"
    "sp500_change fund_momentum_simple = sp500_change example_fund"
    by (simp_all add: fund_momentum_simple_def)
  then show ?thesis
    by (simp add: calculate_returns_def compare_momentum_simple)
qed

text \<open>
  With two approaches of other names the comparison has no outperformance column.
\<close>

lemma no_outperformance_momentum_simple:
  "calculate_returns fund_momentum_simple
     = Inr (fund_momentum_simple\<lparr>comparison := Some comparison_momentum_simple\<rparr>) \<and>
   map fst (cmp_columns comparison_momentum_simple) = [''momentum'', ''simple'', ''VOO'']"
  using calculate_returns_momentum_simple by (simp add: comparison_momentum_simple_def)

text \<open>
  C4: with several approaches the outperformance column is to be absent. The code does
  not count the approaches; it assigns the column whenever the merged frame has a column
  named \<open>performance\<close> (line 150), which is the case with one approach, and also with
  several approaches when one of them is called \<open>performance\<close>. After
  \<open>create_portfolio('performance')\<close> and \<open>create_portfolio('simple')\<close> the comparison
  of the two approaches has an outperformance column, the return of the approach called
  \<open>performance\<close> minus the benchmark's.
\<close>

theorem outperformance_with_two_approaches:
  "create_portfolio example_fund ''performance'' = Inr fund_performance \<and>
   create_portfolio fund_performance ''simple'' = Inr fund_performance_simple \<and>
   calculate_returns fund_performance_simple
     = Inr (fund_performance_simple\<lparr>comparison := Some comparison_performance_simple\<rparr>) \<and>
   map fst (performances fund_performance_simple) = [''performance'', ''simple''] \<and>
   map fst (cmp_columns comparison_performance_simple)
     = [''performance'', ''simple'', ''VOO'', ''outperformance''] \<and>
   map_of (cmp_columns comparison_performance_simple) ''outperformance''
     = Some [NaN, Fin (599 / 100)]"
proof -
  have a: "create_portfolio example_fund ''performance'' = Inr fund_performance"
    by (simp add: create_portfolio_def example_fund_def compose_example fund_performance_def)
  have b: "create_portfolio fund_performance ''simple'' = Inr fund_performance_simple"
    by (simp add: create_portfolio_def example_fund_def compose_example fund_performance_def
        fund_performance_simple_def)
  have p: "performances fund_performance_simple
      = [(''performance'', example_performance), (''simple'', example_performance)]"
    "sp500_change fund_performance_simple = sp500_change example_fund"
    by (simp_all add: fund_performance_simple_def)
  then have c: "calculate_returns fund_performance_simple
     = Inr (fund_performance_simple\<lparr>comparison := Some comparison_performance_simple\<rparr>)"
    by (simp add: calculate_returns_def compare_performance_simple)
  from a b c p(1) show ?thesis
    by (simp add: comparison_performance_simple_def)
qed

section \<open>The whole run\<close>

lemma sorted_sell_dates:
  assumes "get_positions tf n files = Inr ps"
  shows "sorted (map sell_date ps)"
proof -
  have d: "sorted (map date ps)"
    by (rule sorted_dates [OF get_positions_shape(2) [OF assms]])
  have e: "map sell_date ps = map (\<lambda>d. d + 7 * int n) (map date ps)"
    using get_positions_shape(3) [OF assms] by (simp add: comp_def)
  have "sorted (map (\<lambda>d. d + 7 * int n) (map date ps))"
    using d by (intro sorted_map_mono) (auto simp: mono_on_def)
  then show ?thesis unfolding e .
qed

lemma sorted_melt: "sorted (map pc_sell_date (melt fr))"
proof -
  obtain idx cols where fr: "fr = (idx, cols)" by (cases fr)
  have "sorted (map (\<lambda>r. (pc_sell_date r, pc_ticker r)) (melt fr))"
    unfolding melt_def fr by (simp add: sorted_sort_key)
  then have "sorted (map fst (map (\<lambda>r. (pc_sell_date r, pc_ticker r)) (melt fr)))"
    by (intro sorted_map_mono) (auto simp: mono_on_def less_eq_prod_def)
  then show ?thesis by (simp add: comp_def)
qed

lemma tickers_melt: "pc_ticker ` set (melt (idx, cols)) \<subseteq> fst ` set cols"
  by (auto simp: melt_def image_iff) (metis fst_conv)

lemma length_ffill [simp]: "length (ffill prev xs) = length xs"
  by (induction prev xs rule: ffill.induct) auto

lemma length_pct_change [simp]: "length (pct_change n xs) = length xs"
  by (simp add: pct_change_def Let_def)

lemma get_prices_Inr:
  assumes "price_query ps = Inr (tickers, start, end)"
  shows "\<exists>pcs sp. get_prices src n ps = Inr (pcs, sp) \<and> sorted (map pc_sell_date pcs) \<and>
    pc_ticker ` set pcs \<subseteq> fst ` set (snd (download src tickers start end)) \<and>
    map fst sp = map fst (download_one src ''VOO'' start end)"
proof -
  define price where "price = download src tickers start end"
  define cols where "cols = map (\<lambda>(t, xs). (t, pct_change n xs)) (snd price)"
  define sp0 where "sp0 = download_one src ''VOO'' start end"
  define sp where "sp = zip (map fst sp0) (pct_change n (map snd sp0))"
  have g: "get_prices src n ps = Inr (melt (fst price, cols), sp)"
    unfolding get_prices_def assms price_def cols_def sp0_def sp_def Let_def by simp
  have s: "sorted (map pc_sell_date (melt (fst price, cols)))" by (rule sorted_melt)
  have "map fst cols = map fst (snd price)"
    unfolding cols_def by (simp add: split_beta)
  then have "fst ` set cols = fst ` set (snd price)" by (metis list.set_map)
  with tickers_melt [of "fst price" cols]
  have t: "pc_ticker ` set (melt (fst price, cols)) \<subseteq> fst ` set (snd price)" by simp
  have m: "map fst sp = map fst sp0" unfolding sp_def by simp
  show ?thesis
    unfolding price_def [symmetric] sp0_def [symmetric]
    using g s t m by (intro exI [of _ "melt (fst price, cols)"] exI [of _ sp] conjI)
qed

lemma period_rows_first_nan:
  assumes "rows \<noteq> []"
  shows "\<exists>rows'. period_rows (first_nan rows) = Some rows' \<and>
     map (\<lambda>(q, sd, v). sd) rows' = map (\<lambda>(q, sd, v). sd) rows"
proof -
  have p: "period_rows (map (\<lambda>(q, sd, v). Period q sd v) xs) = Some xs" for xs
    by (induction xs) auto
  from assms obtain q sd v rest where rows: "rows = (q, sd, v) # rest"
    by (cases rows) auto
  have "period_rows (first_nan rows) = Some ((q, sd, NaN) # rest)"
    by (simp add: rows first_nan_def p)
  then show ?thesis by (simp add: rows)
qed

lemma benchmark_column_empty: "benchmark_column [] dates = map (\<lambda>d. NaN) dates"
  by (simp add: benchmark_column_def asof_nearest_def)

lemma compare_single_succeeds:
  assumes "period_rows t = Some rows" and "sorted (map (\<lambda>(q, sd, v). sd) rows)"
    and "sorted (map fst sp)"
  shows "\<exists>c. compare [(a, t)] sp = Inr c \<and> length (cmp_sell_date c) = length t"
proof -
  define c0 where "c0 = \<lparr>cmp_sell_date = map (\<lambda>(q, sd, v). sd) rows,
      cmp_quarter = Some (map (\<lambda>(q, sd, v). q) rows),
      cmp_columns = [(''performance'', map (\<lambda>(q, sd, v). v) rows)]\<rparr>"
  have t: "those (map (\<lambda>(a, t). map_option (Pair a) (period_rows t)) [(a, t)]) = Some [(a, rows)]"
    by (simp add: assms(1))
  have c: "combine [(a, rows)] = Inr c0"
    by (simp add: combine_def c0_def)
  have s: "sorted (cmp_sell_date c0)" using assms(2) by (simp add: c0_def)
  have w: "\<exists>cols. with_benchmark c0 sp = Inr cols"
    by (simp add: with_benchmark_def merge_benchmark_def c0_def)
  then obtain cols where cols: "with_benchmark c0 sp = Inr cols" by blast
  let ?c1 = "c0\<lparr>cmp_columns := map (\<lambda>(name, xs). (name, map round2 xs)) cols\<rparr>"
  have cmp: "compare [(a, t)] sp = Inr (sort_by_sell_date ?c1)"
    by (simp add: compare_def assms(1,3) c s cols)
  from compare_Inr [OF cmp] obtain tables c0' cols' where
    a: "those (map (\<lambda>(a, t). map_option (Pair a) (period_rows t)) [(a, t)]) = Some tables" and
    b: "combine tables = Inr c0'" and
    e: "sort_by_sell_date ?c1 = c0'\<lparr>cmp_columns := map (\<lambda>(name, xs). (name, map round2 xs)) cols'\<rparr>"
    by blast
  from a t have "tables = [(a, rows)]" by simp
  with b c have "c0' = c0" by simp
  with e have "cmp_sell_date (sort_by_sell_date ?c1) = cmp_sell_date c0" by simp
  then have "length (cmp_sell_date (sort_by_sell_date ?c1)) = length t"
    using period_rows_Some [OF assms(1)] by (simp add: c0_def)
  with cmp show ?thesis by blast
qed

lemma ffill_all_NaN: "\<forall>x\<in>set xs. x = NaN \<Longrightarrow> ffill NaN xs = xs"
  by (induction xs) auto

lemma pct_change_all_NaN:
  assumes "\<forall>x\<in>set xs. x = NaN"
  shows "\<forall>y\<in>set (pct_change n xs). y = NaN"
proof -
  have "xs ! i = NaN" if "i < length xs" for i
    using assms that by (metis nth_mem)
  then show ?thesis
    by (auto simp: pct_change_def Let_def ffill_all_NaN [OF assms] pf_sub_def)
qed

lemma melt_unavailable:
  assumes "unavailable (idx, cols) t"
    and "ob \<in> set (melt (idx, map (\<lambda>(t, xs). (t, pct_change n xs)) cols))"
    and "pc_ticker ob = t"
  shows "pc_price_change ob = NaN"
proof -
  from assms(2) obtain name xs d x where
    c: "(name, xs) \<in> set cols" and z: "(d, x) \<in> set (zip idx (pct_change n xs))"
    and ob: "ob = \<lparr>pc_sell_date = d, pc_ticker = name, pc_price_change = x\<rparr>"
    by (auto simp: melt_def)
  from ob assms(3) have "name = t" by simp
  with assms(1) c have "\<forall>x\<in>set xs. x = NaN"
    by (auto simp: unavailable_def list_all_iff)
  from pct_change_all_NaN [OF this, of n] z have "x = NaN"
    by (metis set_zip_rightD)
  with ob show ?thesis by simp
qed

lemma unmatched_ticker:
  assumes "compose ps pcs = Inr (portfolio, perf)" and "r \<in> set portfolio"
    and "\<forall>ob\<in>set pcs. pc_ticker ob = ticker r \<longrightarrow> pc_price_change ob = NaN"
  shows "price_change r = NaN \<and> performance r = NaN"
proof -
  from assms(1) have srt: "sorted (map pc_sell_date pcs)"
    and pf: "portfolio = map (merge_row ps pcs) ps"
    by (simp_all add: compose_Inr)
  from assms(2) obtain p where p: "p \<in> set ps" "r = merge_row ps pcs p"
    by (auto simp: pf)
  from p(2) have t: "ticker r = ticker p" by simp
  from matched_change_cases [OF srt, of p] assms(3) t have "matched_change pcs p = NaN"
    by auto
  then show ?thesis by (simp add: p(2))
qed

lemma map2_NaN:
  "length xs = length ds \<Longrightarrow>
     map2 (\<lambda>p b. round2 (pf_sub p b)) xs (map (\<lambda>d. NaN) ds) = map (\<lambda>d. NaN) ds"
  by (rule nth_equalityI) simp_all

lemma week_positions_load:
  "get_positions float_of_digits (Suc 0) two_filings = Inr week_positions"
  unfolding get_positions_def normalize_two_filings class_ok_filings
  by (simp add: two_filings_def week_positions_def astype_float_def str_accessor_def
      is_str_def cell_to_float_def strip_commas_def class_text_def
      float_of_digits_examples float_of_digits_more share_change_def fillna_def
      mk_position_def quarter_label_examples)

lemma price_query_week_positions:
  "price_query week_positions = Inr ([''AAA'', ''BBB''], 19448, 19455)"
proof -
  have "unique (map date week_positions) = [19358, 19448]"
    by (simp add: week_positions_def unique_def)
  moreover have "unique (map ticker (filter (\<lambda>p. pf_gt0 (change p)) week_positions))
      = [''AAA'', ''BBB'']"
    by (simp add: week_positions_def unique_def pf_gt0_def)
  moreover have "Max (set (map sell_date week_positions)) = 19455"
    by (simp add: week_positions_def)
  ultimately show ?thesis by (simp add: price_query_def)
qed

lemma pct_change_week:
  "pct_change (Suc 0) [Fin 100, Fin 106] = [NaN, Fin 6]"
  "pct_change (Suc 0) [NaN, NaN] = [NaN, NaN]"
  "pct_change (Suc 0) [] = []"
  by (simp_all add: pct_change_def Let_def upt_rec pf_sub_def)

lemma melt_week:
  "melt ([19448, 19455], [(''AAA'', [NaN, Fin 6]), (''BBB'', [NaN, NaN])]) = week_returns"
  unfolding melt_def week_returns_def by simp

lemma get_prices_week:
  "get_prices no_bbb_no_benchmark (Suc 0) week_positions = Inr (week_returns, [])"
  by (simp add: get_prices_def price_query_week_positions no_bbb_no_benchmark_def
      pct_change_week melt_week)

lemma week_merge:
  "map (merge_row week_positions week_returns) week_positions = week_portfolio"
  by (simp add: merge_row_def matched_change_def asof_nearest_def observations_def
      quarter_total_def sum_skipna_def week_positions_def week_returns_def
      week_portfolio_def position.defs Let_def)

lemma compose_week:
  "compose week_positions week_returns =
     Inr (week_portfolio, [Period ''q1_2023'' 19365 NaN, Period ''q2_2023'' 19455 (Fin 4)])"
proof -
  have "sorted (map sell_date week_positions)" "sorted (map pc_sell_date week_returns)"
    by (simp_all add: week_positions_def week_returns_def)
  moreover have "group_sums week_portfolio
      = [(''q1_2023'', 19365, Fin 0), (''q2_2023'', 19455, Fin 4)]"
    by (simp add: group_sums_def week_portfolio_def sum_skipna_def)
  ultimately show ?thesis
    by (simp add: compose_def week_merge first_nan_def)
qed

lemma sort_week: "sort_key (\<lambda>i. [19365, 19455 :: int] ! i) [0..<2] = [0, 1]"
  by code_simp

lemma compare_week:
  "compare [(''simple'', [Period ''q1_2023'' 19365 NaN, Period ''q2_2023'' 19455 (Fin 4)])] []
     = Inr week_comparison"
  by (simp add: compare_def combine_def with_benchmark_def merge_benchmark_def
      benchmark_column_def asof_nearest_def rint_def sort_by_sell_date_def sort_week
      week_comparison_def)

lemma evaluate_week:
  "evaluate float_of_digits no_bbb_no_benchmark two_filings fresh_fund = Inr week_evaluated"
proof -
  have n: "n_weeks fresh_fund = 1" by (simp add: fresh_fund_def)
  have "calculate_returns
      (fresh_fund\<lparr>positions := week_positions, self_price_change := week_returns,
                  sp500_change := []\<rparr>) = Inr week_evaluated"
    by (simp add: calculate_returns_def create_portfolio_def fresh_fund_def compose_week
        compare_week week_evaluated_def)
  then show ?thesis
    by (simp add: evaluate_def n week_positions_load get_prices_week)
qed

text \<open>
  C9, as the code has it. A fund without portfolios is evaluated on a store that loads
  and has two filing dates or more, with any price source whose benchmark series is
  sorted by date. The run returns a comparison. A row whose ticker the source has no
  data for (no column, or a column of missing prices) keeps an undefined return and an
  undefined performance. When the benchmark series is empty the run returns as well,
  with the benchmark return and the outperformance undefined in every row; the code has
  no error of the name DataUnavailableError.
\<close>

theorem unavailable_prices:
  assumes "get_positions tf (n_weeks self) files = Inr ps"
    and "price_query ps = Inr (tickers, start, end)"
    and "performances self = []"
    and "sorted (map fst (download_one src ''VOO'' start end))"
  shows "\<exists>self' portfolio c.
     evaluate tf src files self = Inr self' \<and>
     map_of (portfolios self') ''simple'' = Some portfolio \<and> comparison self' = Some c \<and>
     (\<forall>r\<in>set portfolio.
        unavailable (download src tickers start end) (ticker r) \<longrightarrow>
          price_change r = NaN \<and> performance r = NaN) \<and>
     (download_one src ''VOO'' start end = [] \<longrightarrow>
        map_of (cmp_columns c) ''VOO'' = Some (map (\<lambda>d. NaN) (cmp_sell_date c)) \<and>
        map_of (cmp_columns c) ''outperformance'' = Some (map (\<lambda>d. NaN) (cmp_sell_date c)))"
proof -
  let ?n = "n_weeks self"
  define price where "price = download src tickers start end"
  define pcs where "pcs = melt (fst price, map (\<lambda>(t, xs). (t, pct_change ?n xs)) (snd price))"
  define sp0 where "sp0 = download_one src ''VOO'' start end"
  define sp where "sp = zip (map fst sp0) (pct_change ?n (map snd sp0))"
  have gp: "get_prices src ?n ps = Inr (pcs, sp)"
    unfolding get_prices_def assms(2) price_def pcs_def sp0_def sp_def Let_def by simp
  have spcs: "sorted (map pc_sell_date pcs)" unfolding pcs_def by (rule sorted_melt)
  have spd: "map fst sp = map fst sp0" unfolding sp_def by simp
  define self1 where "self1 = self\<lparr>positions := ps, self_price_change := pcs, sp500_change := sp\<rparr>"
  have ev: "evaluate tf src files self = calculate_returns self1"
    by (simp add: evaluate_def assms(1) gp self1_def)
  have ne: "ps \<noteq> []"
    using assms(2) by (auto simp: price_query_def unique_def Let_def split: if_splits)
  define portfolio where "portfolio = map (merge_row ps pcs) ps"
  define tbl where "tbl = sort_key (\<lambda>(q, sd, v). sd) (group_sums portfolio)"
  have co: "compose ps pcs = Inr (portfolio, first_nan tbl)"
    unfolding compose_Inr portfolio_def tbl_def
    using sorted_sell_dates [OF assms(1)] spcs by simp
  define self2 where "self2 = self1\<lparr>portfolios := dict_set (portfolios self1) ''simple'' portfolio,
      performances := [(''simple'', first_nan tbl)]\<rparr>"
  have p1: "performances self1 = []" by (simp add: self1_def assms(3))
  have cp: "create_portfolio self1 ''simple'' = Inr self2"
    by (simp add: create_portfolio_def self1_def self2_def co assms(3))
  have "set (group_sums portfolio) \<noteq> {}"
    using ne by (simp add: set_group_sums portfolio_def)
  then have "tbl \<noteq> []" unfolding tbl_def by (metis set_empty set_sort)
  from period_rows_first_nan [OF this] obtain rows where
    rows: "period_rows (first_nan tbl) = Some rows"
      "map (\<lambda>(q, sd, v). sd) rows = map (\<lambda>(q, sd, v). sd) tbl"
    by blast
  have "sorted (map (\<lambda>(q, sd, v). sd) tbl)" unfolding tbl_def by (rule sorted_sort_key)
  then have srows: "sorted (map (\<lambda>(q, sd, v). sd) rows)" by (simp only: rows(2))
  have ssp: "sorted (map fst sp)" using assms(4) by (simp only: spd sp0_def)
  from compare_single_succeeds [OF rows(1) srows ssp, of "''simple''"] obtain c where
    c: "compare [(''simple'', first_nan tbl)] sp = Inr c"
    and lc: "length (cmp_sell_date c) = length (first_nan tbl)" by blast
  define self3 where "self3 = self2\<lparr>comparison := Some c\<rparr>"
  have s2: "performances self2 = [(''simple'', first_nan tbl)]" "sp500_change self2 = sp"
    by (simp_all add: self2_def self1_def)
  have cr: "calculate_returns self1 = Inr self3"
    by (simp add: calculate_returns_def p1 cp s2 c self3_def)
  have a: "evaluate tf src files self = Inr self3" by (simp only: ev cr)
  have b: "map_of (portfolios self3) ''simple'' = Some portfolio"
    by (simp add: self3_def self2_def map_of_dict_set)
  have d: "comparison self3 = Some c" by (simp add: self3_def)
  have e: "\<forall>r\<in>set portfolio.
        unavailable (download src tickers start end) (ticker r) \<longrightarrow>
          price_change r = NaN \<and> performance r = NaN"
  proof (intro ballI impI)
    fix r assume r: "r \<in> set portfolio"
      and u: "unavailable (download src tickers start end) (ticker r)"
    from u have u': "unavailable (fst price, snd price) (ticker r)" by (simp add: price_def)
    have "\<forall>ob\<in>set pcs. pc_ticker ob = ticker r \<longrightarrow> pc_price_change ob = NaN"
      using melt_unavailable [OF u'] unfolding pcs_def by blast
    from unmatched_ticker [OF co r this] show "price_change r = NaN \<and> performance r = NaN" .
  qed
  have f: "map_of (cmp_columns c) ''VOO'' = Some (map (\<lambda>d. NaN) (cmp_sell_date c)) \<and>
        map_of (cmp_columns c) ''outperformance'' = Some (map (\<lambda>d. NaN) (cmp_sell_date c))"
    if "download_one src ''VOO'' start end = []"
  proof -
    from that have sp: "sp = []" by (simp add: sp_def sp0_def)
    have l: "length (map row_return (first_nan tbl)) = length (cmp_sell_date c)"
      using lc by simp
    show ?thesis
      unfolding compare_single [OF c] sp benchmark_column_empty
      by (simp add: map2_NaN [OF l] comp_def)
  qed
  from a b d e f show ?thesis by (intro exI [of _ self3] exI [of _ portfolio] exI [of _ c]) blast
qed

theorem unavailable_prices_witness:
  "get_positions float_of_digits (n_weeks fresh_fund) two_filings = Inr week_positions \<and>
   price_query week_positions = Inr ([''AAA'', ''BBB''], 19448, 19455) \<and>
   performances fresh_fund = [] \<and>
   download no_bbb_no_benchmark [''AAA'', ''BBB''] 19448 19455
     = ([19448, 19455], [(''AAA'', [Fin 100, Fin 106]), (''BBB'', [NaN, NaN])]) \<and>
   download_one no_bbb_no_benchmark ''VOO'' 19448 19455 = [] \<and>
   evaluate float_of_digits no_bbb_no_benchmark two_filings fresh_fund = Inr week_evaluated \<and>
   ticker (week_portfolio ! 2) = ''BBB'' \<and>
   price_change (week_portfolio ! 2) = NaN \<and> performance (week_portfolio ! 2) = NaN \<and>
   map_of (cmp_columns week_comparison) ''VOO'' = Some [NaN, NaN] \<and>
   map_of (cmp_columns week_comparison) ''outperformance'' = Some [NaN, NaN]"
proof -
  have n: "n_weeks fresh_fund = 1" and p: "performances fresh_fund = []"
    by (simp_all add: fresh_fund_def)
  have l: "get_positions float_of_digits (n_weeks fresh_fund) two_filings = Inr week_positions"
    by (simp add: n week_positions_load)
  have dl: "download no_bbb_no_benchmark [''AAA'', ''BBB''] 19448 19455
     = ([19448, 19455], [(''AAA'', [Fin 100, Fin 106]), (''BBB'', [NaN, NaN])])"
    and d1: "download_one no_bbb_no_benchmark ''VOO'' 19448 19455 = []"
    by (simp_all add: no_bbb_no_benchmark_def)
  have s: "sorted (map fst (download_one no_bbb_no_benchmark ''VOO'' 19448 19455))"
    by (simp add: d1)
  from unavailable_prices [OF l price_query_week_positions p s] obtain self' portfolio c where
    ev: "evaluate float_of_digits no_bbb_no_benchmark two_filings fresh_fund = Inr self'" and
    pf: "map_of (portfolios self') ''simple'' = Some portfolio" and
    cm: "comparison self' = Some c" and
    un: "\<forall>r\<in>set portfolio.
        unavailable (download no_bbb_no_benchmark [''AAA'', ''BBB''] 19448 19455) (ticker r) \<longrightarrow>
          price_change r = NaN \<and> performance r = NaN" and
    bm: "map_of (cmp_columns c) ''VOO'' = Some (map (\<lambda>d. NaN) (cmp_sell_date c)) \<and>
        map_of (cmp_columns c) ''outperformance'' = Some (map (\<lambda>d. NaN) (cmp_sell_date c))"
    using d1 by blast
  from ev have self': "self' = week_evaluated" by (simp add: evaluate_week)
  from pf have portfolio: "portfolio = week_portfolio"
    by (simp add: self' week_evaluated_def)
  from cm have c: "c = week_comparison" by (simp add: self' week_evaluated_def)
  have r: "week_portfolio ! 2 \<in> set week_portfolio" "ticker (week_portfolio ! 2) = ''BBB''"
    by (simp_all add: week_portfolio_def)
  have u: "unavailable ([19448, 19455], [(''AAA'', [Fin 100, Fin 106]), (''BBB'', [NaN, NaN])]) ''BBB''"
    by (simp add: unavailable_def)
  from un r u have x: "price_change (week_portfolio ! 2) = NaN \<and> performance (week_portfolio ! 2) = NaN"
    unfolding portfolio dl by simp
  have sd: "cmp_sell_date week_comparison = [19365, 19455]" by (simp add: week_comparison_def)
  from bm have y: "map_of (cmp_columns week_comparison) ''VOO'' = Some [NaN, NaN]"
    "map_of (cmp_columns week_comparison) ''outperformance'' = Some [NaN, NaN]"
    unfolding c sd by simp_all
  from l price_query_week_positions p dl d1 evaluate_week r(2) x y show ?thesis by simp
qed

text \<open>
  C9 as stated fails for the benchmark. In the example run the series of the benchmark
  comes back empty, and \<open>evaluate\<close> returns: the comparison has the return of the
  portfolio, and the benchmark return and the outperformance are undefined in both rows.
\<close>

theorem empty_benchmark_run:
  "download_one no_bbb_no_benchmark ''VOO'' 19448 19455 = [] \<and>
   evaluate float_of_digits no_bbb_no_benchmark two_filings fresh_fund = Inr week_evaluated \<and>
   comparison week_evaluated =
     Some \<lparr>cmp_sell_date = [19365, 19455], cmp_quarter = Some [''q1_2023'', ''q2_2023''],
           cmp_columns =
             [(''performance'', [NaN, Fin 4]), (''VOO'', [NaN, NaN]),
              (''outperformance'', [NaN, NaN])]\<rparr>"
  by (simp add: evaluate_week)
    (simp add: no_bbb_no_benchmark_def week_evaluated_def week_comparison_def)

end
